theory Spec2Isabelle
  imports Complex_Main "HOL-Library.AList"
begin

section \<open>The backtest page: \<^verbatim>\<open>src/pages/4_Portfolio_Backtest.py\<close>\<close>

text \<open>
  The page is a Streamlit script: every interaction reruns it from top to bottom with the
  current widget values.  One rerun is modelled as a function of the loaded dataset and
  of the widget values; its result is the list of sidebar messages it shows and the way
  the run section (lines 234--317) ends.  Python floats are idealised as real numbers.
\<close>

type_synonym symbol = string
type_synonym date = int

subsection \<open>Dictionaries and numpy\<close>

text \<open>
  A Python \<^verbatim>\<open>dict\<close> keeps its keys in insertion order and an assignment to an
  existing key replaces the value in place: this is \<open>AList.update\<close>.  A dict
  comprehension assigns the pairs one after the other.
\<close>

type_synonym weights = "(symbol \<times> real) list"

definition dict_of :: "(symbol \<times> real) list \<Rightarrow> weights" where
  "dict_of ps = foldl (\<lambda>d (k, v). AList.update k v d) [] ps"

text \<open>\<^verbatim>\<open>sum(weights.values())\<close>\<close>

definition sum_values :: "weights \<Rightarrow> real" where
  "sum_values W = sum_list (map snd W)"

text \<open>
  \<^verbatim>\<open>np.isclose(a, b, atol=atol)\<close> on finite numbers is
  \<^verbatim>\<open>absolute(a - b) <= (atol + rtol * absolute(b))\<close> with the default
  \<^verbatim>\<open>rtol=1e-05\<close>, which the page does not override.
\<close>

definition rtol_default :: real where
  "rtol_default = 1 / 100000"

definition np_isclose :: "real \<Rightarrow> real \<Rightarrow> real \<Rightarrow> bool" where
  "np_isclose a b atol = (\<bar>a - b\<bar> \<le> atol + rtol_default * \<bar>b\<bar>)"

subsection \<open>Configuration and inputs\<close>

text \<open>
  Modelled from the spec: \<^verbatim>\<open>config.BacktestConfig\<close> is imported by the page but is not
  among the sources.  The spec bounds the symbol list by 20 entries, and the widget's own
  label reads "Select Stocks (max 20)".
\<close>

definition MAX_PORTFOLIO_STOCKS :: nat where
  "MAX_PORTFOLIO_STOCKS = 20"

text \<open>
  A row of the main dataframe, with the two columns the page reads.  A missing yield
  (NaN) is \<open>None\<close>.  A dataframe that failed to load (\<^verbatim>\<open>None\<close>) and an empty one are
  treated alike by line 56 and are both the empty list here.
\<close>

record dataset_row =
  Symbol :: symbol
  Div_Yield :: "real option"

type_synonym dataframe = "dataset_row list"

record tax_config =
  qualified_dividend_rate :: real
  ordinary_dividend_rate :: real
  long_term_capital_gains_rate :: real

text \<open>The widget values of one rerun (percentages as the user enters them).\<close>

record widgets =
  selected_stocks :: "symbol list"
  allocation_method :: string
  slider :: "symbol \<Rightarrow> int"
  start_date :: date
  end_date :: date
  initial_investment :: real
  monthly_contribution :: real
  drip_enabled :: bool
  drip_fee_pct :: real
  tax_enabled :: bool
  qualified_pct :: real
  ordinary_pct :: real
  long_term_pct :: real
  rebalancing_frequency :: string
  rebalancing_fee_pct :: real
  run_backtest :: bool

text \<open>
  The arguments of the constructor call (lines 272--279) and of
  \<^verbatim>\<open>run_backtest\<close> (lines 289--295).
\<close>

record backtest_call =
  call_stocks :: "symbol list"
  call_weights :: weights
  call_start_date :: date
  call_end_date :: date
  call_initial_investment :: real
  call_monthly_contribution :: real
  call_drip_enabled :: bool
  call_drip_fee :: real
  call_tax_config :: "tax_config option"
  call_rebalancing_frequency :: string
  call_rebalancing_fee :: real

datatype sidebar_message =
    MaxStocksError nat
  | TotalWeightWarning real
  | TotalWeightSuccess real
  | RebalancingInfo string

datatype stop_reason = DataLoadFailed | NoStockSelected | WeightsNotNormalised

datatype py_error = KeyError symbol | NonScalarValue symbol

text \<open>
  How the rerun ends: the button was not pressed (\<open>NotRun\<close>); the script showed an error
  and called \<^verbatim>\<open>st.stop()\<close> before the \<^verbatim>\<open>try\<close> block of line 270 (\<open>Stopped\<close>); an
  exception escaped outside that block (\<open>Raised\<close>); or the script reached line 272 and
  calls the constructor, the three fetches and \<^verbatim>\<open>run_backtest\<close> with the recorded
  arguments (\<open>Backtest\<close>).
\<close>

datatype outcome =
    NotRun
  | Stopped stop_reason
  | Raised py_error
  | Backtest backtest_call

record page_result =
  sidebar :: "sidebar_message list"
  outcome :: outcome

subsection \<open>The sidebar (lines 60--224)\<close>

text \<open>Lines 71--73: a selection that is too long is reported and cut to its first entries.\<close>

definition effective_stocks :: "symbol list \<Rightarrow> symbol list" where
  "effective_stocks sel =
     (if length sel > MAX_PORTFOLIO_STOCKS then take MAX_PORTFOLIO_STOCKS sel else sel)"

definition max_stocks_messages :: "symbol list \<Rightarrow> sidebar_message list" where
  "max_stocks_messages sel =
     (if length sel > MAX_PORTFOLIO_STOCKS then [MaxStocksError MAX_PORTFOLIO_STOCKS] else [])"

text \<open>Lines 83--101: the custom weights, one slider per stock, and their sidebar check.\<close>

definition custom_weights :: "string \<Rightarrow> symbol list \<Rightarrow> (symbol \<Rightarrow> int) \<Rightarrow> weights" where
  "custom_weights method stocks sl =
     (if method = ''Custom Weight'' \<and> length stocks > 0
      then dict_of (map (\<lambda>stock. (stock, real_of_int (sl stock) / 100)) stocks)
      else [])"

definition custom_weight_messages :: "string \<Rightarrow> symbol list \<Rightarrow> weights \<Rightarrow> sidebar_message list" where
  "custom_weight_messages method stocks W =
     (if method = ''Custom Weight'' \<and> length stocks > 0
      then (let total_weight = sum_values W in
            if \<not> np_isclose total_weight 1 (1 / 100)
            then [TotalWeightWarning total_weight]
            else [TotalWeightSuccess total_weight])
      else [])"

text \<open>Lines 151--160, 169--197 and 211--222.\<close>

definition drip_fee_of :: "widgets \<Rightarrow> real" where
  "drip_fee_of w = (if drip_enabled w then drip_fee_pct w / 100 else 0)"

definition tax_config_of :: "widgets \<Rightarrow> tax_config option" where
  "tax_config_of w =
     (if tax_enabled w
      then Some \<lparr> qualified_dividend_rate = qualified_pct w / 100,
                  ordinary_dividend_rate = ordinary_pct w / 100,
                  long_term_capital_gains_rate = long_term_pct w / 100 \<rparr>
      else None)"

definition rebalancing_fee_of :: "widgets \<Rightarrow> real" where
  "rebalancing_fee_of w =
     (if rebalancing_frequency w \<noteq> ''No Rebalancing'' then rebalancing_fee_pct w / 100 else 0)"

definition rebalancing_messages :: "widgets \<Rightarrow> sidebar_message list" where
  "rebalancing_messages w =
     (if rebalancing_frequency w \<noteq> ''No Rebalancing''
      then [RebalancingInfo (rebalancing_frequency w)] else [])"

subsection \<open>The weights of the run (lines 239--261)\<close>

text \<open>\<^verbatim>\<open>{stock: 1/len(selected_stocks) for stock in selected_stocks}\<close>\<close>

definition equal_weights :: "symbol list \<Rightarrow> weights" where
  "equal_weights stocks = dict_of (map (\<lambda>stock. (stock, 1 / real (length stocks))) stocks)"

text \<open>
  Lines 245--247: the rows of the selected stocks, indexed by symbol; their yields with
  NaN replaced by 0; the sum of that column.
\<close>

definition fillna0 :: "real option \<Rightarrow> real" where
  "fillna0 y = (case y of None \<Rightarrow> 0 | Some v \<Rightarrow> v)"

definition yields_of :: "dataframe \<Rightarrow> symbol list \<Rightarrow> (symbol \<times> real) list" where
  "yields_of df stocks =
     map (\<lambda>r. (Symbol r, fillna0 (Div_Yield r))) (filter (\<lambda>r. Symbol r \<in> set stocks) df)"

definition total_yield_of :: "dataframe \<Rightarrow> symbol list \<Rightarrow> real" where
  "total_yield_of df stocks = sum_list (map snd (yields_of df stocks))"

text \<open>
  \<^verbatim>\<open>yields[stock]\<close> on a Series indexed by symbol: a label that is absent raises
  \<^verbatim>\<open>KeyError\<close>; a label that occurs once gives its number; a label that occurs several
  times gives a sub-series, on which the scalar code that follows cannot go on.
\<close>

definition series_get :: "(symbol \<times> real) list \<Rightarrow> symbol \<Rightarrow> py_error + real" where
  "series_get ys stock =
     (case filter (\<lambda>(k, v). k = stock) ys of
        [] \<Rightarrow> Inl (KeyError stock)
      | [(k, v)] \<Rightarrow> Inr v
      | _ \<Rightarrow> Inl (NonScalarValue stock))"

text \<open>The comprehension of line 250 evaluates its values in order; the first error ends it.\<close>

fun yield_pairs :: "(symbol \<times> real) list \<Rightarrow> real \<Rightarrow> symbol list \<Rightarrow> py_error + (symbol \<times> real) list" where
  "yield_pairs ys total_yield [] = Inr []"
| "yield_pairs ys total_yield (stock # rest) =
     (case series_get ys stock of
        Inl e \<Rightarrow> Inl e
      | Inr y \<Rightarrow>
          (case yield_pairs ys total_yield rest of
             Inl e \<Rightarrow> Inl e
           | Inr ps \<Rightarrow> Inr ((stock, y / total_yield) # ps)))"

definition yield_weights :: "dataframe \<Rightarrow> symbol list \<Rightarrow> py_error + weights" where
  "yield_weights df stocks =
     (let yields = yields_of df stocks; total_yield = total_yield_of df stocks in
      if total_yield > 0
      then (case yield_pairs yields total_yield stocks of
              Inl e \<Rightarrow> Inl e
            | Inr ps \<Rightarrow> Inr (dict_of ps))
      else Inr (equal_weights stocks))"

text \<open>
  The \<^verbatim>\<open>if\<close>/\<^verbatim>\<open>elif\<close> chain of lines 240--261.  \<open>custom\<close> is the dict built by the sidebar;
  it is what remains in \<^verbatim>\<open>weights\<close> when no branch assigns it.
\<close>

definition compute_weights :: "dataframe \<Rightarrow> string \<Rightarrow> symbol list \<Rightarrow> weights \<Rightarrow> py_error + weights" where
  "compute_weights df method stocks custom =
     (if method = ''Equal Weight'' then Inr (equal_weights stocks)
      else if method = ''Yield Weight'' then yield_weights df stocks
      else if method = ''Market Cap Weight'' then Inr (equal_weights stocks)
      else if method = ''Custom Weight'' then Inr custom
      else Inr custom)"

subsection \<open>Validation and the call (lines 263--295)\<close>

definition weights_valid :: "weights \<Rightarrow> bool" where
  "weights_valid W = np_isclose (sum_values W) 1 (1 / 100)"

definition make_call :: "widgets \<Rightarrow> symbol list \<Rightarrow> weights \<Rightarrow> backtest_call" where
  "make_call w stocks W =
     \<lparr> call_stocks = stocks,
       call_weights = W,
       call_start_date = start_date w,
       call_end_date = end_date w,
       call_initial_investment = initial_investment w,
       call_monthly_contribution = monthly_contribution w,
       call_drip_enabled = drip_enabled w,
       call_drip_fee = drip_fee_of w,
       call_tax_config = tax_config_of w,
       call_rebalancing_frequency = rebalancing_frequency w,
       call_rebalancing_fee = rebalancing_fee_of w \<rparr>"

text \<open>Lines 263--295, for the dict \<open>W\<close> that line 264 finds in \<^verbatim>\<open>weights\<close>.\<close>

definition validate_and_run :: "widgets \<Rightarrow> symbol list \<Rightarrow> weights \<Rightarrow> outcome" where
  "validate_and_run w stocks W =
     (if \<not> weights_valid W then Stopped WeightsNotNormalised
      else Backtest (make_call w stocks W))"

text \<open>Lines 234--295.\<close>

definition run_section :: "dataframe \<Rightarrow> widgets \<Rightarrow> symbol list \<Rightarrow> weights \<Rightarrow> outcome" where
  "run_section df w stocks custom =
     (if run_backtest w
      then (if length stocks = 0 then Stopped NoStockSelected
            else (case compute_weights df (allocation_method w) stocks custom of
                    Inl e \<Rightarrow> Raised e
                  | Inr W \<Rightarrow> validate_and_run w stocks W))
      else NotRun)"

text \<open>The whole rerun.\<close>

definition page :: "dataframe \<Rightarrow> widgets \<Rightarrow> page_result" where
  "page df w =
     (if df = [] then \<lparr> sidebar = [], outcome = Stopped DataLoadFailed \<rparr>
      else
        (let stocks = effective_stocks (selected_stocks w);
             custom = custom_weights (allocation_method w) stocks (slider w)
         in \<lparr> sidebar = max_stocks_messages (selected_stocks w)
                        @ custom_weight_messages (allocation_method w) stocks custom
                        @ rebalancing_messages w,
              outcome = run_section df w stocks custom \<rparr>))"

text \<open>
  What the rerun passes to the backtester, if it gets that far: the \<^verbatim>\<open>stocks\<close> and
  \<^verbatim>\<open>weights\<close> arguments of the constructor call of lines 272--279.
\<close>

definition passed_stocks :: "outcome \<Rightarrow> symbol list option" where
  "passed_stocks out = (case out of Backtest call \<Rightarrow> Some (call_stocks call) | _ \<Rightarrow> None)"

definition passed_weights :: "outcome \<Rightarrow> weights option" where
  "passed_weights out = (case out of Backtest call \<Rightarrow> Some (call_weights call) | _ \<Rightarrow> None)"

section \<open>The simulation engine\<close>

text \<open>
  The page hands the run to \<^verbatim>\<open>modules.portfolio_backtester.PortfolioBacktester\<close>, which is
  not among the sources.  The engine and its analytics are modelled from the
  specification; amounts of money and shares are real numbers.
\<close>

subsection \<open>Risk and performance analytics\<close>




definition mean :: "real list \<Rightarrow> real" where
  "mean xs = sum_list xs / real (length xs)"

definition variance :: "real list \<Rightarrow> real" where
  "variance xs =
     (if length xs < 2 then 0
      else sum_list (map (\<lambda>x. (x - mean xs)\<^sup>2) xs) / (real (length xs) - 1))"

definition stdev :: "real list \<Rightarrow> real" where
  "stdev xs = sqrt (variance xs)"

definition annualized_return :: "real list \<Rightarrow> real" where
  "annualized_return r = mean r * 252"

definition volatility :: "real list \<Rightarrow> real" where
  "volatility r = stdev r * sqrt 252"






definition cagr :: "real \<Rightarrow> real \<Rightarrow> real \<Rightarrow> real" where
  "cagr final_value initial days_elapsed = (final_value / initial) powr (365 / days_elapsed) - 1"


subsection \<open>Data model, tax calculator, rebalancer and day loop\<close>

text \<open>
  Modelled from the spec: the data model of section 3.  A tax lot records its acquisition
  date, its shares and its cost basis per share; a holding has a share count, the ordered
  queue of its lots and the dividends it has received; the portfolio state has the as-of
  date, the cash balance, the holdings by symbol and the last known prices.  The engine's
  state extends the portfolio state with the series and histories of the run, with the
  contributions made, and with \<open>price_gains\<close>, the sum over all days of the change of
  value that the day's new prices brought to the shares held.
\<close>

datatype rebalancing_frequency = NoRebalancing | Monthly | Quarterly | SemiAnnual | Annual

record tax_lot =
  lot_date :: date
  lot_shares :: real
  lot_cost :: real

record holding =
  shares :: real
  lots :: "tax_lot list"
  dividends_received :: real

record portfolio_state =
  as_of :: date
  cash :: real
  holdings :: "symbol \<Rightarrow> holding"
  last_price :: "symbol \<Rightarrow> real option"

datatype dividend_class = Qualified | Ordinary

datatype holding_term = ShortTerm | LongTerm

datatype tax_kind = DividendTax | CapitalGainsTax

record dividend_payment =
  dp_date :: date
  dp_symbol :: symbol
  dp_amount :: real
  dp_shares :: real
  dp_gross :: real
  dp_class :: dividend_class
  dp_tax :: real
  dp_net :: real
  dp_fee :: real
  dp_reinvested :: bool

record tax_payment =
  tp_date :: date
  tp_symbol :: "symbol option"
  tp_kind :: tax_kind
  tp_gross :: real
  tp_tax :: real
  tp_net :: real

record trade =
  trade_symbol :: symbol
  trade_delta :: real
  trade_gain :: real

record rebalancing_event =
  re_date :: date
  re_pre_weights :: "(symbol \<times> real) list"
  re_target_weights :: "(symbol \<times> real) list"
  re_trades :: "trade list"
  re_fees :: real
  re_taxes :: real

record engine_state = portfolio_state +
  daily_values :: "real list"
  benchmark_values :: "real option list"
  dividend_history :: "dividend_payment list"
  tax_payments :: "tax_payment list"
  rebalancing_history :: "rebalancing_event list"
  contribution_history :: "(date \<times> real) list"
  price_gains :: real

text \<open>
  Modelled from the spec: the inputs of a run (section 6).  The tax configuration of the
  page has three rates; the rate for short-term gains, which section 4.2 calls "the
  corresponding configured rate" without listing it among the inputs, is a fourth field.
  The spec gives the contribution and rebalancing schedules in calendar terms only; they
  are parameters here: \<open>cfg_contribution_day\<close> tells the days on which the monthly
  contribution is due, \<open>cfg_period_start\<close> the days on which a rebalancing period of a
  given frequency begins.  A trading day carries the pre-fetched data of its date: close
  prices and per-share dividends by symbol (\<open>None\<close> where the series has no entry) and the
  benchmark close.
\<close>

record tax_rates = tax_config +
  short_term_capital_gains_rate :: real

record engine_config =
  cfg_symbols :: "symbol list"
  cfg_weights :: weights
  cfg_start_date :: date
  cfg_end_date :: date
  cfg_initial_investment :: real
  cfg_monthly_contribution :: real
  cfg_drip_enabled :: bool
  cfg_drip_fee :: real
  cfg_tax :: "tax_rates option"
  cfg_qualified_days :: int
  cfg_frequency :: rebalancing_frequency
  cfg_rebalancing_fee :: real
  cfg_contribution_day :: "date \<Rightarrow> bool"
  cfg_period_start :: "rebalancing_frequency \<Rightarrow> date \<Rightarrow> bool"

record trading_day =
  day_date :: date
  day_prices :: "symbol \<Rightarrow> real option"
  day_dividends :: "symbol \<Rightarrow> real option"
  day_benchmark :: "real option"

text \<open>
  Modelled from the spec: the fatal errors of section 7.  A violation names what went
  negative, the cash or the shares of a symbol; the error carries the date.
\<close>

datatype violation = NegativeCash | NegativeShares symbol

datatype config_problem =
    WeightsDoNotSumToOne
  | TooManySymbols
  | StartNotBeforeEnd
  | NegativeAmount
  | AllSymbolsExcluded

datatype engine_error =
    ConfigurationError config_problem
  | SimulationInvariantError date violation

text \<open>
  Modelled from the spec: the target weight of a symbol (0 when the mapping has no entry)
  and the derived total market value of section 3, cash plus shares times last known
  price; a symbol without a known price counts for nothing.
\<close>

definition weight_of :: "engine_config \<Rightarrow> symbol \<Rightarrow> real" where
  "weight_of cfg s = (case map_of (cfg_weights cfg) s of None \<Rightarrow> 0 | Some w \<Rightarrow> w)"

definition price_of :: "engine_state \<Rightarrow> symbol \<Rightarrow> real" where
  "price_of st s = (case last_price st s of None \<Rightarrow> 0 | Some p \<Rightarrow> p)"

definition position_value :: "engine_state \<Rightarrow> symbol \<Rightarrow> real" where
  "position_value st s = shares (holdings st s) * price_of st s"

definition total_value :: "symbol list \<Rightarrow> engine_state \<Rightarrow> real" where
  "total_value syms st = cash st + sum_list (map (position_value st) syms)"

text \<open>
  Modelled from the spec: step 1 of a day (section 4.1), mark-to-market.  A symbol without
  a price on this date keeps its previous price.
\<close>

definition carried_price :: "trading_day \<Rightarrow> engine_state \<Rightarrow> symbol \<Rightarrow> real option" where
  "carried_price d st s = (case day_prices d s of None \<Rightarrow> last_price st s | Some p \<Rightarrow> Some p)"

definition mark_to_market :: "symbol list \<Rightarrow> trading_day \<Rightarrow> engine_state \<Rightarrow> engine_state" where
  "mark_to_market syms d st =
     st\<lparr> as_of := day_date d,
         last_price := carried_price d st,
         price_gains := price_gains st
           + sum_list (map (\<lambda>s. shares (holdings st s)
                 * ((case carried_price d st s of None \<Rightarrow> 0 | Some p \<Rightarrow> p) - price_of st s)) syms) \<rparr>"

text \<open>
  Modelled from the spec: a purchase adds the shares and appends a lot dated today, at
  the price paid.  An amount of cash is invested in a symbol at its last known price; it
  stays in cash when the symbol has no positive price yet.  Deploying an amount spreads
  it over the symbols by their target weights (initial allocation and step 3).
\<close>

definition buy_shares :: "symbol \<Rightarrow> real \<Rightarrow> real \<Rightarrow> engine_state \<Rightarrow> engine_state" where
  "buy_shares s q p st =
     st\<lparr> cash := cash st - q * p,
         holdings := (holdings st)
           (s := (holdings st s)
              \<lparr> shares := shares (holdings st s) + q,
                lots := lots (holdings st s)
                        @ [\<lparr> lot_date = as_of st, lot_shares = q, lot_cost = p \<rparr>] \<rparr>) \<rparr>"

definition invest :: "symbol \<Rightarrow> real \<Rightarrow> engine_state \<Rightarrow> engine_state" where
  "invest s amount st =
     (case last_price st s of
        None \<Rightarrow> st
      | Some p \<Rightarrow> if 0 < p then buy_shares s (amount / p) p st else st)"

definition deploy :: "engine_config \<Rightarrow> symbol list \<Rightarrow> real \<Rightarrow> engine_state \<Rightarrow> engine_state" where
  "deploy cfg syms amount st = fold (\<lambda>s. invest s (amount * weight_of cfg s)) syms st"

text \<open>
  Modelled from the spec: FIFO matching (sections 4.2 and 9).  The lots of a symbol are a
  queue, appended on purchase and consumed from the front on sale.  \<open>match_fifo\<close>
  returns the matched portions, each with the date and cost basis of its lot, and the
  lots that remain.  A sale reduces the share count by the shares sold, also when the
  lots do not cover them: the count then goes negative, which the check at the end of
  the day reports.
\<close>

fun match_fifo :: "tax_lot list \<Rightarrow> real \<Rightarrow> tax_lot list \<times> tax_lot list" where
  "match_fifo [] q = ([], [])"
| "match_fifo (l # ls) q =
     (if q \<le> 0 then ([], l # ls)
      else if q < lot_shares l
        then ([l\<lparr>lot_shares := q\<rparr>], l\<lparr>lot_shares := lot_shares l - q\<rparr> # ls)
      else (case match_fifo ls (q - lot_shares l) of (ms, rest) \<Rightarrow> (l # ms, rest)))"

definition sell_shares :: "symbol \<Rightarrow> real \<Rightarrow> real \<Rightarrow> engine_state \<Rightarrow> engine_state" where
  "sell_shares s q p st =
     st\<lparr> cash := cash st + q * p,
         holdings := (holdings st)
           (s := (holdings st s)
              \<lparr> shares := shares (holdings st s) - q,
                lots := snd (match_fifo (lots (holdings st s)) q) \<rparr>) \<rparr>"

text \<open>
  Modelled from the spec: the capital-gains half of the tax calculator (section 4.2).
  The holding period of a matched portion is the sale date minus the acquisition date; at
  most 365 days is short-term, more is long-term.  The realized gain of a portion sold at
  a price is its shares times price minus cost basis.  Within each term the gains and
  losses are summed, a negative sum counts as 0, and the term's rate is applied.
\<close>

definition holding_period :: "date \<Rightarrow> tax_lot \<Rightarrow> int" where
  "holding_period on_date l = on_date - lot_date l"

definition term_of :: "date \<Rightarrow> tax_lot \<Rightarrow> holding_term" where
  "term_of sale_date l = (if holding_period sale_date l \<le> 365 then ShortTerm else LongTerm)"

definition gain_of :: "tax_lot \<times> real \<Rightarrow> real" where
  "gain_of r = (case r of (m, p) \<Rightarrow> lot_shares m * (p - lot_cost m))"

definition taxable_gain :: "date \<Rightarrow> holding_term \<Rightarrow> (tax_lot \<times> real) list \<Rightarrow> real" where
  "taxable_gain sale_date term rs =
     max 0 (sum_list (map gain_of (filter (\<lambda>r. term_of sale_date (fst r) = term) rs)))"

definition capital_gains_rate :: "tax_rates \<Rightarrow> holding_term \<Rightarrow> real" where
  "capital_gains_rate rates term =
     (case term of
        ShortTerm \<Rightarrow> short_term_capital_gains_rate rates
      | LongTerm \<Rightarrow> long_term_capital_gains_rate rates)"

definition capital_gains_tax :: "tax_rates \<Rightarrow> date \<Rightarrow> (tax_lot \<times> real) list \<Rightarrow> real" where
  "capital_gains_tax rates sale_date rs =
     capital_gains_rate rates ShortTerm * taxable_gain sale_date ShortTerm rs
     + capital_gains_rate rates LongTerm * taxable_gain sale_date LongTerm rs"

text \<open>
  Modelled from the spec: step 2 of a day, dividends (sections 4.1 and 4.2).  Only shares
  held strictly before the ex-date earn the dividend.  The payment is qualified when every
  lot that earns it has been held for the threshold, ordinary otherwise.  The tax is the
  gross amount times the rate of the class, or nothing when tax modelling is off; a tax
  record is emitted when it is on.  With DRIP the net cash less the DRIP fee buys shares
  at the day's price; otherwise it goes to cash.
\<close>

definition eligible_lots :: "date \<Rightarrow> holding \<Rightarrow> tax_lot list" where
  "eligible_lots ex_date h = filter (\<lambda>l. lot_date l < ex_date) (lots h)"

definition eligible_shares :: "date \<Rightarrow> holding \<Rightarrow> real" where
  "eligible_shares ex_date h = sum_list (map lot_shares (eligible_lots ex_date h))"

definition classify_dividend :: "int \<Rightarrow> date \<Rightarrow> holding \<Rightarrow> dividend_class" where
  "classify_dividend threshold ex_date h =
     (if list_all (\<lambda>l. threshold \<le> holding_period ex_date l) (eligible_lots ex_date h)
      then Qualified else Ordinary)"

definition dividend_rate :: "tax_rates \<Rightarrow> dividend_class \<Rightarrow> real" where
  "dividend_rate rates c =
     (case c of
        Qualified \<Rightarrow> qualified_dividend_rate rates
      | Ordinary \<Rightarrow> ordinary_dividend_rate rates)"

definition dividend_tax :: "tax_rates option \<Rightarrow> dividend_class \<Rightarrow> real \<Rightarrow> real" where
  "dividend_tax tax c gross = (case tax of None \<Rightarrow> 0 | Some rates \<Rightarrow> gross * dividend_rate rates c)"

definition can_buy :: "engine_state \<Rightarrow> symbol \<Rightarrow> bool" where
  "can_buy st s = (case last_price st s of None \<Rightarrow> False | Some p \<Rightarrow> 0 < p)"

definition credit_dividend :: "engine_config \<Rightarrow> symbol \<Rightarrow> real \<Rightarrow> engine_state \<Rightarrow> dividend_payment" where
  "credit_dividend cfg s a st =
     (let h = holdings st s;
          gross = eligible_shares (as_of st) h * a;
          c = classify_dividend (cfg_qualified_days cfg) (as_of st) h;
          tax = dividend_tax (cfg_tax cfg) c gross;
          net = gross - tax;
          reinvest = (cfg_drip_enabled cfg \<and> can_buy st s)
      in \<lparr> dp_date = as_of st, dp_symbol = s, dp_amount = a,
           dp_shares = eligible_shares (as_of st) h, dp_gross = gross, dp_class = c,
           dp_tax = tax, dp_net = net,
           dp_fee = (if reinvest then net * cfg_drip_fee cfg else 0),
           dp_reinvested = reinvest \<rparr>)"

definition dividend_tax_record :: "engine_config \<Rightarrow> dividend_payment \<Rightarrow> tax_payment list" where
  "dividend_tax_record cfg dp =
     (case cfg_tax cfg of
        None \<Rightarrow> []
      | Some rates \<Rightarrow>
          [\<lparr> tp_date = dp_date dp, tp_symbol = Some (dp_symbol dp), tp_kind = DividendTax,
             tp_gross = dp_gross dp, tp_tax = dp_tax dp, tp_net = dp_net dp \<rparr>])"

definition pay_dividend :: "engine_config \<Rightarrow> symbol \<Rightarrow> real \<Rightarrow> engine_state \<Rightarrow> engine_state" where
  "pay_dividend cfg s a st =
     (if 0 < eligible_shares (as_of st) (holdings st s)
      then (let dp = credit_dividend cfg s a st;
                st1 = st\<lparr> cash := cash st + (dp_net dp - dp_fee dp),
                          holdings := (holdings st)
                            (s := (holdings st s)
                               \<lparr> dividends_received :=
                                   dividends_received (holdings st s) + dp_gross dp \<rparr>),
                          dividend_history := dividend_history st @ [dp],
                          tax_payments := tax_payments st @ dividend_tax_record cfg dp \<rparr>
            in if dp_reinvested dp then invest s (dp_net dp - dp_fee dp) st1 else st1)
      else st)"

definition dividend_step :: "engine_config \<Rightarrow> symbol list \<Rightarrow> trading_day \<Rightarrow> engine_state \<Rightarrow> engine_state" where
  "dividend_step cfg syms d st =
     fold (\<lambda>s st'. case day_dividends d s of None \<Rightarrow> st' | Some a \<Rightarrow> pay_dividend cfg s a st') syms st"

text \<open>
  Modelled from the spec: step 3 of a day, the monthly contribution, added to cash and
  deployed at once by the target weights.
\<close>

definition contribution_step :: "engine_config \<Rightarrow> symbol list \<Rightarrow> trading_day \<Rightarrow> engine_state \<Rightarrow> engine_state" where
  "contribution_step cfg syms d st =
     (if cfg_contribution_day cfg (day_date d) \<and> 0 < cfg_monthly_contribution cfg
      then deploy cfg syms (cfg_monthly_contribution cfg)
             (st\<lparr> cash := cash st + cfg_monthly_contribution cfg,
                  contribution_history :=
                    contribution_history st @ [(day_date d, cfg_monthly_contribution cfg)] \<rparr>)
      else st)"

text \<open>
  Modelled from the spec: the rebalancer (section 4.3).  The trigger "none" never fires;
  the others fire at the start of their periods.  On a trigger date the gap of a symbol is
  its target value, weight times total value, minus its current value.  Overweight symbols
  are sold down by their excess, the lots matched FIFO; the fee is a flat percentage of
  the gross value of every trade; the tax on the realized gains and the fees come out of
  cash.  Underweight symbols are bought with the proceeds: where the cash left after the
  sales, their fee and the tax does not cover the wanted purchases and their fee, the
  purchases are scaled down in proportion (the spec accepts the resulting deviation from
  the target).  One event and, with tax modelling on, one tax record are recorded.  No
  trade is made in a symbol without a positive price, nor when the total value is not
  positive.
\<close>

definition rebalance_due :: "engine_config \<Rightarrow> date \<Rightarrow> bool" where
  "rebalance_due cfg today =
     (case cfg_frequency cfg of
        NoRebalancing \<Rightarrow> False
      | Monthly \<Rightarrow> cfg_period_start cfg Monthly today
      | Quarterly \<Rightarrow> cfg_period_start cfg Quarterly today
      | SemiAnnual \<Rightarrow> cfg_period_start cfg SemiAnnual today
      | Annual \<Rightarrow> cfg_period_start cfg Annual today)"

definition gap :: "engine_config \<Rightarrow> symbol list \<Rightarrow> engine_state \<Rightarrow> symbol \<Rightarrow> real" where
  "gap cfg syms st s = weight_of cfg s * total_value syms st - position_value st s"

definition planned_sells :: "engine_config \<Rightarrow> symbol list \<Rightarrow> engine_state \<Rightarrow> (symbol \<times> real) list" where
  "planned_sells cfg syms st =
     map (\<lambda>s. (s, - gap cfg syms st s / price_of st s))
         (filter (\<lambda>s. gap cfg syms st s < 0 \<and> 0 < price_of st s) syms)"

definition wanted_buys :: "engine_config \<Rightarrow> symbol list \<Rightarrow> engine_state \<Rightarrow> (symbol \<times> real) list" where
  "wanted_buys cfg syms st =
     map (\<lambda>s. (s, gap cfg syms st s))
         (filter (\<lambda>s. 0 < gap cfg syms st s \<and> 0 < price_of st s) syms)"

definition realized_of :: "engine_state \<Rightarrow> (symbol \<times> real) \<Rightarrow> (tax_lot \<times> real) list" where
  "realized_of st sq =
     (case sq of (s, q) \<Rightarrow>
        map (\<lambda>m. (m, price_of st s)) (fst (match_fifo (lots (holdings st s)) q)))"

definition execute_sells :: "engine_state \<Rightarrow> (symbol \<times> real) list \<Rightarrow> engine_state \<Rightarrow> engine_state" where
  "execute_sells st0 sells st = fold (\<lambda>sq. case sq of (s, q) \<Rightarrow> sell_shares s q (price_of st0 s)) sells st"

definition execute_buys :: "(symbol \<times> real) list \<Rightarrow> engine_state \<Rightarrow> engine_state" where
  "execute_buys buys st = fold (\<lambda>sa. case sa of (s, a) \<Rightarrow> invest s a) buys st"

definition buy_scale :: "real \<Rightarrow> real \<Rightarrow> real \<Rightarrow> real" where
  "buy_scale fee wanted available =
     (if wanted * (1 + fee) \<le> available then 1
      else if 0 < available then available / (wanted * (1 + fee))
      else 0)"

definition rebalance :: "engine_config \<Rightarrow> symbol list \<Rightarrow> engine_state \<Rightarrow> engine_state" where
  "rebalance cfg syms st =
     (if total_value syms st \<le> 0 then st
      else
        (let sells = planned_sells cfg syms st;
             realized = concat (map (realized_of st) sells);
             st1 = execute_sells st sells st;
             sold_value = sum_list (map (\<lambda>sq. snd sq * price_of st (fst sq)) sells);
             taxes = (case cfg_tax cfg of
                        None \<Rightarrow> 0
                      | Some rates \<Rightarrow> capital_gains_tax rates (as_of st) realized);
             available = cash st1 - cfg_rebalancing_fee cfg * sold_value - taxes;
             wanted = wanted_buys cfg syms st;
             scale = buy_scale (cfg_rebalancing_fee cfg) (sum_list (map snd wanted)) available;
             buys = map (\<lambda>sa. (fst sa, snd sa * scale)) wanted;
             st2 = execute_buys buys st1;
             fees = cfg_rebalancing_fee cfg * (sold_value + sum_list (map snd buys));
             event = \<lparr> re_date = as_of st,
                       re_pre_weights =
                         map (\<lambda>s. (s, position_value st s / total_value syms st)) syms,
                       re_target_weights = map (\<lambda>s. (s, weight_of cfg s)) syms,
                       re_trades =
                         map (\<lambda>sq. \<lparr> trade_symbol = fst sq, trade_delta = - snd sq,
                                     trade_gain = sum_list (map gain_of (realized_of st sq)) \<rparr>) sells
                         @ map (\<lambda>sa. \<lparr> trade_symbol = fst sa,
                                       trade_delta = snd sa / price_of st (fst sa),
                                       trade_gain = 0 \<rparr>) buys,
                       re_fees = fees,
                       re_taxes = taxes \<rparr>
         in st2\<lparr> cash := cash st2 - fees - taxes,
                 rebalancing_history := rebalancing_history st2 @ [event],
                 tax_payments := tax_payments st2 @
                   (case cfg_tax cfg of
                      None \<Rightarrow> []
                    | Some rates \<Rightarrow>
                        [\<lparr> tp_date = as_of st, tp_symbol = None, tp_kind = CapitalGainsTax,
                           tp_gross = sum_list (map gain_of realized), tp_tax = taxes,
                           tp_net = sum_list (map gain_of realized) - taxes \<rparr>]) \<rparr>))"

definition rebalancing_step :: "engine_config \<Rightarrow> symbol list \<Rightarrow> trading_day \<Rightarrow> engine_state \<Rightarrow> engine_state" where
  "rebalancing_step cfg syms d st =
     (if rebalance_due cfg (day_date d) then rebalance cfg syms st else st)"

text \<open>
  Modelled from the spec: one trading day (section 4.1), steps 1 to 4 in their fixed
  order, then the check of the invariants of section 3 (cash and share counts are not
  negative) and step 5, the snapshot.  A violation ends the run with the error of section
  7.  The trajectory is the list of the states at the end of each day.
\<close>

definition day_transitions :: "engine_config \<Rightarrow> symbol list \<Rightarrow> trading_day \<Rightarrow> engine_state \<Rightarrow> engine_state" where
  "day_transitions cfg syms d st =
     rebalancing_step cfg syms d
       (contribution_step cfg syms d
          (dividend_step cfg syms d
             (mark_to_market syms d st)))"

definition check_invariants :: "symbol list \<Rightarrow> engine_state \<Rightarrow> violation option" where
  "check_invariants syms st =
     (if cash st < 0 then Some NegativeCash
      else (case find (\<lambda>s. shares (holdings st s) < 0) syms of
              Some s \<Rightarrow> Some (NegativeShares s)
            | None \<Rightarrow> None))"

definition snapshot :: "symbol list \<Rightarrow> trading_day \<Rightarrow> engine_state \<Rightarrow> engine_state" where
  "snapshot syms d st =
     st\<lparr> daily_values := daily_values st @ [total_value syms st],
         benchmark_values := benchmark_values st @ [day_benchmark d] \<rparr>"

definition day_step :: "engine_config \<Rightarrow> symbol list \<Rightarrow> engine_state \<Rightarrow> trading_day \<Rightarrow> engine_error + engine_state" where
  "day_step cfg syms st d =
     (let st' = day_transitions cfg syms d st in
      case check_invariants syms st' of
        Some v \<Rightarrow> Inl (SimulationInvariantError (day_date d) v)
      | None \<Rightarrow> Inr (snapshot syms d st'))"

fun trajectory :: "engine_config \<Rightarrow> symbol list \<Rightarrow> engine_state \<Rightarrow> trading_day list \<Rightarrow> engine_error + engine_state list" where
  "trajectory cfg syms st [] = Inr []"
| "trajectory cfg syms st (d # ds) =
     (case day_step cfg syms st d of
        Inl e \<Rightarrow> Inl e
      | Inr st' \<Rightarrow>
          (case trajectory cfg syms st' ds of
             Inl e \<Rightarrow> Inl e
           | Inr sts \<Rightarrow> Inr (st' # sts)))"

text \<open>
  Modelled from the spec: the run (sections 4.1, 6 and 7).  Invalid inputs are refused
  before the simulation starts.  A symbol without any price in the range is excluded,
  with a warning in the result; a run without symbols left fails.  The state is created
  from the initial allocation at the prices of the first day.  The comparison series
  without DRIP is the same simulation with DRIP switched off.  The bundle leaves out the
  optional reference series and the metrics, which are functions of the finished series
  (above).
\<close>

definition validate :: "engine_config \<Rightarrow> config_problem option" where
  "validate cfg =
     (if \<bar>sum_values (cfg_weights cfg) - 1\<bar> > 1 / 100 then Some WeightsDoNotSumToOne
      else if length (cfg_symbols cfg) > 20 then Some TooManySymbols
      else if cfg_start_date cfg \<ge> cfg_end_date cfg then Some StartNotBeforeEnd
      else if cfg_initial_investment cfg < 0 \<or> cfg_monthly_contribution cfg < 0
        then Some NegativeAmount
      else None)"

definition has_data :: "trading_day list \<Rightarrow> symbol \<Rightarrow> bool" where
  "has_data days s = list_ex (\<lambda>d. day_prices d s \<noteq> None) days"

definition active_symbols :: "engine_config \<Rightarrow> trading_day list \<Rightarrow> symbol list" where
  "active_symbols cfg days = remdups (filter (has_data days) (cfg_symbols cfg))"

definition excluded_symbols :: "engine_config \<Rightarrow> trading_day list \<Rightarrow> symbol list" where
  "excluded_symbols cfg days = filter (\<lambda>s. \<not> has_data days s) (cfg_symbols cfg)"

definition empty_holding :: holding where
  "empty_holding = \<lparr> shares = 0, lots = [], dividends_received = 0 \<rparr>"

definition initial_state :: "engine_config \<Rightarrow> engine_state" where
  "initial_state cfg =
     \<lparr> as_of = cfg_start_date cfg,
       cash = cfg_initial_investment cfg,
       holdings = (\<lambda>s. empty_holding),
       last_price = (\<lambda>s. None),
       daily_values = [],
       benchmark_values = [],
       dividend_history = [],
       tax_payments = [],
       rebalancing_history = [],
       contribution_history = [],
       price_gains = 0 \<rparr>"

definition initial_allocation :: "engine_config \<Rightarrow> symbol list \<Rightarrow> trading_day \<Rightarrow> engine_state" where
  "initial_allocation cfg syms d =
     deploy cfg syms (cfg_initial_investment cfg) (mark_to_market syms d (initial_state cfg))"

definition simulate :: "engine_config \<Rightarrow> trading_day list \<Rightarrow> engine_error + engine_state list" where
  "simulate cfg days =
     (case validate cfg of
        Some problem \<Rightarrow> Inl (ConfigurationError problem)
      | None \<Rightarrow>
          (case days of
             [] \<Rightarrow> Inl (ConfigurationError AllSymbolsExcluded)
           | d # ds \<Rightarrow>
               if active_symbols cfg days = [] then Inl (ConfigurationError AllSymbolsExcluded)
               else trajectory cfg (active_symbols cfg days)
                      (initial_allocation cfg (active_symbols cfg days) d) days))"

record result_bundle =
  rb_daily_values :: "real list"
  rb_daily_values_no_drip :: "real list"
  rb_benchmark_values :: "real option list"
  rb_dividend_history :: "dividend_payment list"
  rb_tax_payments :: "tax_payment list"
  rb_rebalancing_history :: "rebalancing_event list"
  rb_holdings :: "(symbol \<times> real \<times> real \<times> real \<times> real) list"
  rb_warnings :: "symbol list"

definition finalize :: "engine_config \<Rightarrow> trading_day list \<Rightarrow> engine_state \<Rightarrow> engine_state \<Rightarrow> result_bundle" where
  "finalize cfg days st st_no_drip =
     \<lparr> rb_daily_values = daily_values st,
       rb_daily_values_no_drip = daily_values st_no_drip,
       rb_benchmark_values = benchmark_values st,
       rb_dividend_history = dividend_history st,
       rb_tax_payments = tax_payments st,
       rb_rebalancing_history = rebalancing_history st,
       rb_holdings =
         map (\<lambda>s. (s, shares (holdings st s), price_of st s, position_value st s,
                    dividends_received (holdings st s)))
             (active_symbols cfg days),
       rb_warnings = excluded_symbols cfg days \<rparr>"

definition run_backtest_engine :: "engine_config \<Rightarrow> trading_day list \<Rightarrow> engine_error + result_bundle" where
  "run_backtest_engine cfg days =
     (case simulate cfg days of
        Inl e \<Rightarrow> Inl e
      | Inr sts \<Rightarrow>
          (case simulate (cfg\<lparr>cfg_drip_enabled := False\<rparr>) days of
             Inl e \<Rightarrow> Inl e
           | Inr sts_no_drip \<Rightarrow>
               Inr (finalize cfg days (last (initial_state cfg # sts))
                      (last (initial_state cfg # sts_no_drip)))))"

subsection \<open>Accounts of a run\<close>

text \<open>
  The sums of the conservation law, read off the histories of a state.  \<open>claimed_total\<close>
  is the right-hand side as the claim words it; \<open>accounted_total\<close> counts every
  dividend gross, whether reinvested or not, and adds the price gains.
\<close>

definition total_contributions :: "engine_state \<Rightarrow> real" where
  "total_contributions st = sum_list (map snd (contribution_history st))"

definition total_gross_dividends :: "engine_state \<Rightarrow> real" where
  "total_gross_dividends st = sum_list (map dp_gross (dividend_history st))"

definition net_dividends_not_reinvested :: "engine_state \<Rightarrow> real" where
  "net_dividends_not_reinvested st =
     sum_list (map dp_net (filter (\<lambda>dp. \<not> dp_reinvested dp) (dividend_history st)))"

definition total_fees :: "engine_state \<Rightarrow> real" where
  "total_fees st =
     sum_list (map dp_fee (dividend_history st)) + sum_list (map re_fees (rebalancing_history st))"

definition total_taxes :: "engine_state \<Rightarrow> real" where
  "total_taxes st = sum_list (map tp_tax (tax_payments st))"

definition claimed_total :: "engine_config \<Rightarrow> engine_state \<Rightarrow> real" where
  "claimed_total cfg st =
     cfg_initial_investment cfg + total_contributions st + net_dividends_not_reinvested st
       - total_fees st - total_taxes st"

definition accounted_total :: "engine_config \<Rightarrow> engine_state \<Rightarrow> real" where
  "accounted_total cfg st =
     cfg_initial_investment cfg + total_contributions st + total_gross_dividends st
       - total_fees st - total_taxes st + price_gains st"

text \<open>The accounts of a state balance: its market value is the accounted total.\<close>

definition conserved :: "engine_config \<Rightarrow> symbol list \<Rightarrow> engine_state \<Rightarrow> bool" where
  "conserved cfg syms st = (total_value syms st = accounted_total cfg st)"

text \<open>
  The state of a run in which no rebalancing has happened: no event recorded, no
  capital-gains tax paid.
\<close>

definition no_rebalancing_yet :: "engine_state \<Rightarrow> bool" where
  "no_rebalancing_yet st =
     (rebalancing_history st = [] \<and> (\<forall>tp \<in> set (tax_payments st). tp_kind tp = DividendTax))"

section \<open>Reference notions and sample inputs\<close>

text \<open>
  The yield of a symbol as the claims about yield weighting speak of it: the yield of the
  symbol's row, a missing one counted as 0.  These two definitions follow the claim's
  words; the page's own computation is \<open>yield_weights\<close> above.
\<close>

definition yield_or_zero :: "dataframe \<Rightarrow> symbol \<Rightarrow> real" where
  "yield_or_zero df s =
     (case find (\<lambda>r. Symbol r = s) df of None \<Rightarrow> 0 | Some r \<Rightarrow> fillna0 (Div_Yield r))"

definition yield_missing :: "dataframe \<Rightarrow> symbol \<Rightarrow> bool" where
  "yield_missing df s =
     (case find (\<lambda>r. Symbol r = s) df of None \<Rightarrow> True | Some r \<Rightarrow> Div_Yield r = None)"

text \<open>Sample inputs on which the theorems below are exercised.\<close>

definition example_df :: dataframe where
  "example_df = [\<lparr> Symbol = ''JNJ'', Div_Yield = Some 3 \<rparr>,
                 \<lparr> Symbol = ''KO'', Div_Yield = Some 1 \<rparr>,
                 \<lparr> Symbol = ''PG'', Div_Yield = None \<rparr>]"

definition example_widgets :: widgets where
  "example_widgets =
     \<lparr> selected_stocks = [''KO'', ''PG''],
       allocation_method = ''Equal Weight'',
       slider = (\<lambda>s. 50),
       start_date = 0,
       end_date = 365,
       initial_investment = 10000,
       monthly_contribution = 0,
       drip_enabled = True,
       drip_fee_pct = 0,
       tax_enabled = False,
       qualified_pct = 15,
       ordinary_pct = 22,
       long_term_pct = 15,
       rebalancing_frequency = ''No Rebalancing'',
       rebalancing_fee_pct = 1 / 10,
       run_backtest = True \<rparr>"

definition example_symbols21 :: "symbol list" where
  "example_symbols21 =
     [''S01'', ''S02'', ''S03'', ''S04'', ''S05'', ''S06'', ''S07'', ''S08'', ''S09'', ''S10'',
      ''S11'', ''S12'', ''S13'', ''S14'', ''S15'', ''S16'', ''S17'', ''S18'', ''S19'', ''S20'',
      ''S21'']"

definition example_widgets21 :: widgets where
  "example_widgets21 = example_widgets\<lparr>selected_stocks := example_symbols21\<rparr>"

definition example_df21 :: dataframe where
  "example_df21 = map (\<lambda>s. \<lparr> Symbol = s, Div_Yield = Some 2 \<rparr>) example_symbols21"

text \<open>
  Sample runs: three trading days, one stock at a constant price that pays a dividend on
  the second day; a configuration that reinvests it; and one whose weights, though they
  sum to 1, sell a symbol short.
\<close>

definition sample_days :: "trading_day list" where
  "sample_days =
     [\<lparr> day_date = 1, day_prices = map_of [(''A'', 100), (''B'', 50)],
         day_dividends = map_of [], day_benchmark = Some 400 \<rparr>,
      \<lparr> day_date = 2, day_prices = map_of [(''A'', 100), (''B'', 50)],
         day_dividends = map_of [(''A'', 1)], day_benchmark = Some 401 \<rparr>,
      \<lparr> day_date = 3, day_prices = map_of [(''A'', 100)],
         day_dividends = map_of [], day_benchmark = None \<rparr>]"

definition sample_config :: engine_config where
  "sample_config =
     \<lparr> cfg_symbols = [''A''], cfg_weights = [(''A'', 1)],
       cfg_start_date = 1, cfg_end_date = 3,
       cfg_initial_investment = 1000, cfg_monthly_contribution = 0,
       cfg_drip_enabled = True, cfg_drip_fee = 0,
       cfg_tax = None, cfg_qualified_days = 60,
       cfg_frequency = NoRebalancing, cfg_rebalancing_fee = 1 / 100,
       cfg_contribution_day = (\<lambda>d. False),
       cfg_period_start = (\<lambda>f d. True) \<rparr>"



definition sample_rates :: tax_rates where
  "sample_rates =
     \<lparr> qualified_dividend_rate = 15 / 100, ordinary_dividend_rate = 22 / 100,
       long_term_capital_gains_rate = 20 / 100, short_term_capital_gains_rate = 30 / 100 \<rparr>"

definition taxed_config :: engine_config where
  "taxed_config =
     \<lparr> cfg_symbols = [''A'', ''B''], cfg_weights = [(''A'', 1 / 2), (''B'', 1 / 2)],
       cfg_start_date = 1, cfg_end_date = 400,
       cfg_initial_investment = 2000, cfg_monthly_contribution = 0,
       cfg_drip_enabled = False, cfg_drip_fee = 0,
       cfg_tax = Some sample_rates, cfg_qualified_days = 60,
       cfg_frequency = Quarterly, cfg_rebalancing_fee = 0,
       cfg_contribution_day = (\<lambda>d. False),
       cfg_period_start = (\<lambda>f d. d = 400) \<rparr>"

definition taxed_days :: "trading_day list" where
  "taxed_days =
     [\<lparr> day_date = 1, day_prices = map_of [(''A'', 100), (''B'', 100)],
         day_dividends = map_of [], day_benchmark = Some 400 \<rparr>,
      \<lparr> day_date = 400, day_prices = map_of [(''A'', 150), (''B'', 100)],
         day_dividends = map_of [], day_benchmark = Some 500 \<rparr>]"


text \<open>
  Samples for the conservation law: a configuration that taxes the dividend and pays it
  to cash, and three days on which the price of the stock rises.  \<open>law_sides\<close> gives, for
  a completed run, the market value of the final state and the total that the claim
  equates it with.
\<close>

definition taxed_dividend_config :: engine_config where
  "taxed_dividend_config =
     sample_config\<lparr> cfg_drip_enabled := False, cfg_tax := Some sample_rates \<rparr>"

definition rising_days :: "trading_day list" where
  "rising_days =
     [\<lparr> day_date = 1, day_prices = map_of [(''A'', 100)],
         day_dividends = map_of [], day_benchmark = Some 400 \<rparr>,
      \<lparr> day_date = 2, day_prices = map_of [(''A'', 120)],
         day_dividends = map_of [], day_benchmark = Some 401 \<rparr>,
      \<lparr> day_date = 3, day_prices = map_of [(''A'', 150)],
         day_dividends = map_of [], day_benchmark = Some 402 \<rparr>]"

definition law_sides :: "engine_config \<Rightarrow> trading_day list \<Rightarrow> engine_error + real \<times> real" where
  "law_sides cfg days =
     map_sum id
       (\<lambda>sts. (total_value (active_symbols cfg days) (last sts), claimed_total cfg (last sts)))
       (simulate cfg days)"

section \<open>Properties of the page\<close>

subsection \<open>Dictionaries built from distinct keys\<close>

lemma update_fresh_append:
  "k \<notin> fst ` set al \<Longrightarrow> AList.update k v al = al @ [(k, v)]"
  by (induction al) auto

lemma dict_of_distinct:
  "distinct (map fst ps) \<Longrightarrow> dict_of ps = ps"
proof (induction ps rule: rev_induct)
  case Nil
  show ?case by (simp add: dict_of_def)
next
  case (snoc p ps)
  obtain k v where p: "p = (k, v)" by (cases p)
  from snoc.prems have d: "distinct (map fst ps)" and k: "k \<notin> fst ` set ps"
    by (auto simp: p)
  have "dict_of (ps @ [p]) = AList.update k v (dict_of ps)"
    by (simp add: dict_of_def p)
  also have "\<dots> = AList.update k v ps"
    using snoc.IH [OF d] by simp
  also have "\<dots> = ps @ [(k, v)]"
    using k by (rule update_fresh_append)
  finally show ?case by (simp add: p)
qed

lemma equal_weights_distinct:
  "distinct stocks \<Longrightarrow>
   equal_weights stocks = map (\<lambda>stock. (stock, 1 / real (length stocks))) stocks"
  unfolding equal_weights_def
  by (rule dict_of_distinct) (simp add: comp_def)

lemma sum_values_const:
  "sum_values (map (\<lambda>s. (s, c)) xs) = real (length xs) * c"
  by (induction xs) (simp_all add: sum_values_def algebra_simps)

lemma sum_values_equal_weights:
  "distinct stocks \<Longrightarrow> stocks \<noteq> [] \<Longrightarrow> sum_values (equal_weights stocks) = 1"
  by (simp add: equal_weights_distinct sum_values_const)

lemma weights_valid_sum_1:
  "sum_values W = 1 \<Longrightarrow> weights_valid W"
  by (simp add: weights_valid_def np_isclose_def rtol_default_def)

lemma distinct_effective_stocks:
  "distinct sel \<Longrightarrow> distinct (effective_stocks sel)"
  by (simp add: effective_stocks_def)

lemma effective_stocks_nonempty:
  "sel \<noteq> [] \<Longrightarrow> effective_stocks sel \<noteq> []"
  by (auto simp: effective_stocks_def MAX_PORTFOLIO_STOCKS_def)


subsection \<open>Equal weights\<close>

lemma equal_weight_page:
  assumes "df \<noteq> []" and "run_backtest w" and "allocation_method w = ''Equal Weight''"
    and "selected_stocks w \<noteq> []" and "distinct (selected_stocks w)"
  shows "outcome (page df w) =
           Backtest (make_call w (effective_stocks (selected_stocks w))
             (map (\<lambda>stock. (stock, 1 / real (length (effective_stocks (selected_stocks w)))))
                  (effective_stocks (selected_stocks w))))"
proof -
  let ?st = "effective_stocks (selected_stocks w)"
  have d: "distinct ?st" using assms(5) by (rule distinct_effective_stocks)
  have ne: "?st \<noteq> []" using assms(4) by (rule effective_stocks_nonempty)
  have v: "weights_valid (equal_weights ?st)"
    using d ne by (intro weights_valid_sum_1 sum_values_equal_weights)
  have "outcome (page df w) = Backtest (make_call w ?st (equal_weights ?st))"
    using assms(1-3) ne v
    by (simp add: page_def Let_def run_section_def compute_weights_def validate_and_run_def)
  then show ?thesis using d by (simp add: equal_weights_distinct)
qed

text \<open>
  Claim C9, as the code has it.  Under the allocation method "Equal Weight", for a
  non-empty selection of \<open>n\<close> distinct symbols (a multiselect returns each option at most
  once): when \<open>n\<close> is at most 20, the stocks and the weight mapping passed to the
  backtester have exactly the selected symbols as keys, in order, each with weight
  \<open>1 / n\<close>; when \<open>n\<close> is more than 20, the selection has been cut to its first 20 symbols
  (lines 71--73), which are then the keys, each with weight \<open>1 / 20\<close>.  In both cases the
  weights sum to 1 and pass the validation of line 264, so the run is not rejected for
  bad weights.
\<close>

theorem equal_weight_accepted:
  assumes "df \<noteq> []" and "run_backtest w" and "allocation_method w = ''Equal Weight''"
    and "selected_stocks w \<noteq> []" and "distinct (selected_stocks w)"
  shows "(length (selected_stocks w) \<le> MAX_PORTFOLIO_STOCKS \<longrightarrow>
            passed_stocks (outcome (page df w)) = Some (selected_stocks w)
          \<and> passed_weights (outcome (page df w))
              = Some (map (\<lambda>stock. (stock, 1 / real (length (selected_stocks w))))
                          (selected_stocks w)))
       \<and> (MAX_PORTFOLIO_STOCKS < length (selected_stocks w) \<longrightarrow>
            passed_stocks (outcome (page df w))
              = Some (take MAX_PORTFOLIO_STOCKS (selected_stocks w))
          \<and> passed_weights (outcome (page df w))
              = Some (map (\<lambda>stock. (stock, 1 / real MAX_PORTFOLIO_STOCKS))
                          (take MAX_PORTFOLIO_STOCKS (selected_stocks w))))
       \<and> (\<exists>W. passed_weights (outcome (page df w)) = Some W
              \<and> sum_values W = 1 \<and> weights_valid W)
       \<and> outcome (page df w) \<noteq> Stopped WeightsNotNormalised"
proof -
  let ?sel = "selected_stocks w"
  let ?st = "effective_stocks ?sel"
  let ?W = "map (\<lambda>stock. (stock, 1 / real (length ?st))) ?st"
  have d: "distinct ?st" using assms(5) by (rule distinct_effective_stocks)
  have ne: "?st \<noteq> []" using assms(4) by (rule effective_stocks_nonempty)
  have out: "outcome (page df w) = Backtest (make_call w ?st ?W)"
    using assms by (rule equal_weight_page)
  have ps: "passed_stocks (outcome (page df w)) = Some ?st"
    and pw: "passed_weights (outcome (page df w)) = Some ?W"
    by (simp_all add: out passed_stocks_def passed_weights_def make_call_def)
  have s1: "sum_values ?W = 1"
    using d ne sum_values_equal_weights [of ?st] by (simp add: equal_weights_distinct)
  have small: "length ?sel \<le> MAX_PORTFOLIO_STOCKS \<Longrightarrow> ?st = ?sel"
    by (simp add: effective_stocks_def)
  have big: "MAX_PORTFOLIO_STOCKS < length ?sel \<Longrightarrow> ?st = take MAX_PORTFOLIO_STOCKS ?sel"
    by (simp add: effective_stocks_def)
  have len: "MAX_PORTFOLIO_STOCKS < length ?sel \<Longrightarrow>
             length (take MAX_PORTFOLIO_STOCKS ?sel) = MAX_PORTFOLIO_STOCKS"
    by simp
  have 1: "length ?sel \<le> MAX_PORTFOLIO_STOCKS \<longrightarrow>
            passed_stocks (outcome (page df w)) = Some ?sel
          \<and> passed_weights (outcome (page df w))
              = Some (map (\<lambda>stock. (stock, 1 / real (length ?sel))) ?sel)"
    using ps pw small by simp
  have 2: "MAX_PORTFOLIO_STOCKS < length ?sel \<longrightarrow>
            passed_stocks (outcome (page df w)) = Some (take MAX_PORTFOLIO_STOCKS ?sel)
          \<and> passed_weights (outcome (page df w))
              = Some (map (\<lambda>stock. (stock, 1 / real MAX_PORTFOLIO_STOCKS))
                          (take MAX_PORTFOLIO_STOCKS ?sel))"
    using ps pw big len by simp
  have 3: "\<exists>W. passed_weights (outcome (page df w)) = Some W
              \<and> sum_values W = 1 \<and> weights_valid W"
    using pw s1 weights_valid_sum_1 by blast
  have 4: "outcome (page df w) \<noteq> Stopped WeightsNotNormalised"
    by (simp add: out)
  from 1 2 3 4 show ?thesis by blast
qed

theorem equal_weight_accepted_witness:
  "passed_stocks (outcome (page example_df example_widgets)) = Some [''KO'', ''PG'']
   \<and> passed_weights (outcome (page example_df example_widgets))
       = Some [(''KO'', 1 / 2), (''PG'', 1 / 2)]
   \<and> passed_stocks (outcome (page example_df21 example_widgets21))
       = Some (take 20 example_symbols21)
   \<and> passed_weights (outcome (page example_df21 example_widgets21))
       = Some (map (\<lambda>stock. (stock, 1 / 20)) (take 20 example_symbols21))
   \<and> sum_values [(''KO'', 1 / 2), (''PG'', 1 / 2)] = 1"
proof -
  have sel21: "selected_stocks example_widgets21 = example_symbols21"
    by (simp add: example_widgets21_def)
  have f21: "length example_symbols21 = 21" "distinct example_symbols21" "example_symbols21 \<noteq> []"
    by (simp_all add: example_symbols21_def)
  have small: "passed_stocks (outcome (page example_df example_widgets)) = Some [''KO'', ''PG'']
     \<and> passed_weights (outcome (page example_df example_widgets))
         = Some [(''KO'', 1 / 2), (''PG'', 1 / 2)]"
    using equal_weight_accepted [of example_df example_widgets]
    by (simp add: example_df_def example_widgets_def MAX_PORTFOLIO_STOCKS_def)
  have big: "passed_stocks (outcome (page example_df21 example_widgets21))
         = Some (take 20 example_symbols21)
     \<and> passed_weights (outcome (page example_df21 example_widgets21))
         = Some (map (\<lambda>stock. (stock, 1 / 20)) (take 20 example_symbols21))"
    using equal_weight_accepted [of example_df21 example_widgets21]
    by (simp add: sel21 f21 example_df21_def example_widgets21_def example_widgets_def
        MAX_PORTFOLIO_STOCKS_def)
  from small big show ?thesis by (simp add: sum_values_def)
qed

text \<open>
  The claim as worded fails for a selection of 21 symbols: the twenty-first is selected
  but is no key of the weights passed, and each weight is 1/20, not 1/21.
\<close>

theorem equal_weight_counterexample:
  "length (selected_stocks example_widgets21) = 21
   \<and> ''S21'' \<in> set (selected_stocks example_widgets21)
   \<and> passed_weights (outcome (page example_df21 example_widgets21))
       = Some (map (\<lambda>stock. (stock, 1 / 20)) (take 20 example_symbols21))
   \<and> ''S21'' \<notin> fst ` set (map (\<lambda>stock. (stock, 1 / 20 :: real)) (take 20 example_symbols21))
   \<and> map_of (map (\<lambda>stock. (stock, 1 / 20 :: real)) (take 20 example_symbols21)) ''S01''
       = Some (1 / 20)
   \<and> (1 / 20 :: real) \<noteq> 1 / 21"
proof -
  have sel21: "selected_stocks example_widgets21 = example_symbols21"
    by (simp add: example_widgets21_def)
  have f21: "length example_symbols21 = 21" "distinct example_symbols21" "example_symbols21 \<noteq> []"
    by (simp_all add: example_symbols21_def)
  have eff: "effective_stocks example_symbols21 = take 20 example_symbols21"
    by (simp add: effective_stocks_def MAX_PORTFOLIO_STOCKS_def f21)
  have "outcome (page example_df21 example_widgets21)
          = Backtest (make_call example_widgets21 (effective_stocks (selected_stocks example_widgets21))
             (map (\<lambda>stock. (stock, 1 / real (length (effective_stocks (selected_stocks example_widgets21)))))
                  (effective_stocks (selected_stocks example_widgets21))))"
    using equal_weight_page [of example_df21 example_widgets21]
    by (simp add: sel21 f21 example_df21_def example_widgets21_def example_widgets_def)
  then have pw: "passed_weights (outcome (page example_df21 example_widgets21))
       = Some (map (\<lambda>stock. (stock, 1 / 20)) (take 20 example_symbols21))"
    by (simp add: sel21 eff f21 passed_weights_def make_call_def)
  have rest: "''S21'' \<in> set example_symbols21"
    "''S21'' \<notin> fst ` set (map (\<lambda>stock. (stock, 1 / 20 :: real)) (take 20 example_symbols21))"
    "map_of (map (\<lambda>stock. (stock, 1 / 20 :: real)) (take 20 example_symbols21)) ''S01''
       = Some (1 / 20)"
    by (simp_all add: example_symbols21_def)
  from pw rest show ?thesis by (simp add: sel21 f21)
qed

subsection \<open>Yield weights\<close>

lemma find_distinct_Symbol:
  "distinct (map Symbol df) \<Longrightarrow> r \<in> set df \<Longrightarrow> find (\<lambda>r'. Symbol r' = Symbol r) df = Some r"
  by (induction df) (auto simp: image_iff)

lemma yield_or_zero_row:
  "distinct (map Symbol df) \<Longrightarrow> r \<in> set df \<Longrightarrow> yield_or_zero df (Symbol r) = fillna0 (Div_Yield r)"
  by (simp add: yield_or_zero_def find_distinct_Symbol)

lemma total_yield_of_eq:
  assumes df: "distinct (map Symbol df)" and st: "distinct stocks"
    and sub: "set stocks \<subseteq> Symbol ` set df"
  shows "total_yield_of df stocks = sum_list (map (yield_or_zero df) stocks)"
proof -
  let ?R = "{r \<in> set df. Symbol r \<in> set stocks}"
  have inj: "inj_on Symbol (set df)" and ddf: "distinct df"
    using df by (auto simp: distinct_map)
  have "total_yield_of df stocks
          = sum_list (map (\<lambda>r. fillna0 (Div_Yield r)) (filter (\<lambda>r. Symbol r \<in> set stocks) df))"
    by (simp add: total_yield_of_def yields_of_def comp_def)
  also have "\<dots> = sum (\<lambda>r. fillna0 (Div_Yield r)) ?R"
    using ddf by (simp add: sum_list_distinct_conv_sum_set)
  also have "\<dots> = sum (\<lambda>r. yield_or_zero df (Symbol r)) ?R"
    by (rule sum.cong) (auto simp: yield_or_zero_row [OF df])
  also have "\<dots> = sum (yield_or_zero df) (Symbol ` ?R)"
  proof -
    have "inj_on Symbol ?R" by (rule inj_on_subset [OF inj]) auto
    then show ?thesis by (simp add: sum.reindex comp_def)
  qed
  also have "Symbol ` ?R = set stocks"
    using sub by auto
  also have "sum (yield_or_zero df) (set stocks) = sum_list (map (yield_or_zero df) stocks)"
    using st by (simp add: sum_list_distinct_conv_sum_set)
  finally show ?thesis .
qed

lemma filter_Symbol_single:
  "distinct (map Symbol df) \<Longrightarrow> r \<in> set df \<Longrightarrow> filter (\<lambda>r'. Symbol r' = Symbol r) df = [r]"
  by (induction df) (auto simp: image_iff filter_empty_conv)

lemma series_get_yields_of:
  assumes df: "distinct (map Symbol df)" and s: "s \<in> set stocks" and sub: "set stocks \<subseteq> Symbol ` set df"
  shows "series_get (yields_of df stocks) s = Inr (yield_or_zero df s)"
proof -
  from s sub obtain r where r: "r \<in> set df" "Symbol r = s" by auto
  have "filter (\<lambda>(k, v). k = s) (yields_of df stocks)
          = map (\<lambda>r. (Symbol r, fillna0 (Div_Yield r))) (filter (\<lambda>r'. Symbol r' = s) df)"
    using s by (auto simp: yields_of_def filter_map comp_def intro!: arg_cong [where f = "map _"] filter_cong)
  also have "\<dots> = [(s, fillna0 (Div_Yield r))]"
    using filter_Symbol_single [OF df r(1)] r(2) by simp
  finally show ?thesis
    using yield_or_zero_row [OF df r(1)] r(2) by (simp add: series_get_def)
qed

lemma yield_pairs_ok:
  assumes df: "distinct (map Symbol df)" and sub: "set stocks \<subseteq> Symbol ` set df"
  shows "set xs \<subseteq> set stocks \<Longrightarrow>
         yield_pairs (yields_of df stocks) t xs = Inr (map (\<lambda>s. (s, yield_or_zero df s / t)) xs)"
  by (induction xs) (simp_all add: series_get_yields_of [OF df _ sub])

lemma sum_values_div:
  "sum_values (map (\<lambda>s. (s, f s / t)) xs) = sum_list (map f xs) / t"
  by (induction xs) (simp_all add: sum_values_def add_divide_distrib)

text \<open>
  Claim C10.  Under the allocation method "Yield Weight", for a non-empty selection of
  distinct symbols taken from a dataframe with one row per symbol: if the sum of the
  selected symbols' yields (a missing yield counted as 0) is positive, each symbol's
  weight is its yield divided by that sum, the weights sum to 1 and a symbol whose yield
  is missing gets weight 0; otherwise every symbol gets the equal weight \<open>1 / n\<close>.
\<close>

theorem yield_weight_allocation:
  assumes "distinct (map Symbol df)" and "distinct stocks" and "stocks \<noteq> []"
    and "set stocks \<subseteq> Symbol ` set df"
  shows "(0 < sum_list (map (yield_or_zero df) stocks) \<longrightarrow>
            compute_weights df ''Yield Weight'' stocks custom
              = Inr (map (\<lambda>s. (s, yield_or_zero df s / sum_list (map (yield_or_zero df) stocks))) stocks)
          \<and> sum_values (map (\<lambda>s. (s, yield_or_zero df s / sum_list (map (yield_or_zero df) stocks))) stocks) = 1
          \<and> (\<forall>s \<in> set stocks. yield_missing df s \<longrightarrow>
                yield_or_zero df s / sum_list (map (yield_or_zero df) stocks) = 0))
       \<and> (\<not> 0 < sum_list (map (yield_or_zero df) stocks) \<longrightarrow>
            compute_weights df ''Yield Weight'' stocks custom
              = Inr (map (\<lambda>s. (s, 1 / real (length stocks))) stocks))"
proof -
  let ?T = "sum_list (map (yield_or_zero df) stocks)"
  have T: "total_yield_of df stocks = ?T"
    using assms(1,2,4) by (rule total_yield_of_eq)
  have pairs: "yield_pairs (yields_of df stocks) ?T stocks
                 = Inr (map (\<lambda>s. (s, yield_or_zero df s / ?T)) stocks)"
    using yield_pairs_ok [OF assms(1,4), of stocks] by simp
  have dist: "dict_of (map (\<lambda>s. (s, yield_or_zero df s / ?T)) stocks)
                = map (\<lambda>s. (s, yield_or_zero df s / ?T)) stocks"
    using assms(2) by (intro dict_of_distinct) (simp add: comp_def)
  have pos: "0 < ?T \<Longrightarrow> compute_weights df ''Yield Weight'' stocks custom
              = Inr (map (\<lambda>s. (s, yield_or_zero df s / ?T)) stocks)"
    by (simp add: compute_weights_def yield_weights_def Let_def T pairs dist)
  have one: "0 < ?T \<Longrightarrow> sum_values (map (\<lambda>s. (s, yield_or_zero df s / ?T)) stocks) = 1"
    by (simp add: sum_values_div)
  have miss: "yield_missing df s \<Longrightarrow> yield_or_zero df s / ?T = 0" for s
    by (auto simp: yield_missing_def yield_or_zero_def fillna0_def split: option.splits)
  have npos: "\<not> 0 < ?T \<Longrightarrow> compute_weights df ''Yield Weight'' stocks custom
              = Inr (map (\<lambda>s. (s, 1 / real (length stocks))) stocks)"
    using assms(2) by (simp add: compute_weights_def yield_weights_def Let_def T equal_weights_distinct)
  from pos one miss npos show ?thesis by blast
qed

theorem yield_weight_allocation_witness:
  "(compute_weights example_df ''Yield Weight'' [''KO'', ''PG'', ''JNJ''] []
     = Inr [(''KO'', 1 / 4), (''PG'', 0), (''JNJ'', 3 / 4)]
   \<and> yield_missing example_df ''PG''
   \<and> sum_values [(''KO'', 1 / 4), (''PG'', 0), (''JNJ'', 3 / 4)] = 1)
   \<and> compute_weights example_df ''Yield Weight'' [''PG''] [] = Inr [(''PG'', 1)]"
  using yield_weight_allocation [of example_df "[''KO'', ''PG'', ''JNJ'']" "[]"]
        yield_weight_allocation [of example_df "[''PG'']" "[]"]
  by (simp add: example_df_def yield_or_zero_def yield_missing_def fillna0_def sum_values_def)


subsection \<open>Validation of the weights\<close>

text \<open>
  Claim C4, as the code has it.  The validation of lines 263--266 stops the script, before
  the backtester is built, before any data is fetched and before any day is simulated,
  exactly for the weight mappings whose sum is further than \<open>0.01 + 0.00001\<close> from 1:
  \<^verbatim>\<open>np.isclose\<close> adds its default relative tolerance, \<open>1e-5\<close> times \<open>|1.0|\<close>, to the
  absolute tolerance the page passes.  Every other mapping reaches the backtester call.
\<close>

theorem weights_validation_tolerance:
  "(\<bar>sum_values W - 1\<bar> > 1 / 100 + 1 / 100000 \<longrightarrow>
      validate_and_run w stocks W = Stopped WeightsNotNormalised)
   \<and> (\<bar>sum_values W - 1\<bar> \<le> 1 / 100 + 1 / 100000 \<longrightarrow>
      validate_and_run w stocks W = Backtest (make_call w stocks W))"
  by (simp add: validate_and_run_def weights_valid_def np_isclose_def rtol_default_def)

theorem weights_validation_tolerance_witness:
  "\<bar>sum_values [(''KO'', 1 / 2), (''PG'', 13 / 25)] - 1\<bar> > 1 / 100 + 1 / 100000
   \<and> validate_and_run example_widgets [''KO'', ''PG''] [(''KO'', 1 / 2), (''PG'', 13 / 25)]
       = Stopped WeightsNotNormalised
   \<and> \<bar>sum_values [(''KO'', 1 / 2), (''PG'', 51 / 100)] - 1\<bar> \<le> 1 / 100 + 1 / 100000
   \<and> validate_and_run example_widgets [''KO'', ''PG''] [(''KO'', 1 / 2), (''PG'', 51 / 100)]
       = Backtest (make_call example_widgets [''KO'', ''PG''] [(''KO'', 1 / 2), (''PG'', 51 / 100)])"
  using weights_validation_tolerance [of "[(''KO'', 1 / 2), (''PG'', 13 / 25)]" example_widgets "[''KO'', ''PG'']"]
        weights_validation_tolerance [of "[(''KO'', 1 / 2), (''PG'', 51 / 100)]" example_widgets "[''KO'', ''PG'']"]
  by (simp add: sum_values_def)

text \<open>
  The claim with the bound 0.01 fails.  With two sliders at 50 and 51 the weights are, in
  double precision, 0.5 and the double nearest to 0.51, which is
  \<open>2296835809958953 / 4503599627370496\<close>; their sum is exact.  It is further than 0.01
  from 1, and the script goes on to the backtester call with it.
\<close>

theorem weights_validation_counterexample:
  "\<bar>sum_values [(''KO'', 1 / 2), (''PG'', 2296835809958953 / 4503599627370496)] - 1\<bar> > 1 / 100
   \<and> validate_and_run example_widgets [''KO'', ''PG'']
         [(''KO'', 1 / 2), (''PG'', 2296835809958953 / 4503599627370496)]
       = Backtest (make_call example_widgets [''KO'', ''PG'']
                     [(''KO'', 1 / 2), (''PG'', 2296835809958953 / 4503599627370496)])"
  by (simp add: validate_and_run_def weights_valid_def np_isclose_def rtol_default_def sum_values_def)

subsection \<open>Selections of more than twenty symbols\<close>

lemma example21_facts:
  "length example_symbols21 = 21" "distinct example_symbols21" "example_symbols21 \<noteq> []"
  by (simp_all add: example_symbols21_def)

lemma make_call_selected [simp]:
  "make_call (w\<lparr>selected_stocks := x\<rparr>) stocks W = make_call w stocks W"
  by (simp add: make_call_def drip_fee_of_def tax_config_of_def rebalancing_fee_of_def)

lemma validate_and_run_selected [simp]:
  "validate_and_run (w\<lparr>selected_stocks := x\<rparr>) stocks W = validate_and_run w stocks W"
  by (simp add: validate_and_run_def)

lemma run_section_selected [simp]:
  "run_section df (w\<lparr>selected_stocks := x\<rparr>) stocks custom = run_section df w stocks custom"
  by (simp add: run_section_def cong: sum.case_cong)

lemma rebalancing_messages_selected [simp]:
  "rebalancing_messages (w\<lparr>selected_stocks := x\<rparr>) = rebalancing_messages w"
  by (simp add: rebalancing_messages_def)

text \<open>
  Claim C5, as the code has it.  For a selection of more than 20 symbols the page shows
  the sidebar error "Maximum 20 stocks allowed!" and goes on with the first 20 symbols:
  but for that message, the rerun is the rerun on the truncated selection.  The run is
  not refused for the number of symbols.
\<close>

theorem oversized_selection_truncated:
  assumes "df \<noteq> []" and "length (selected_stocks w) > MAX_PORTFOLIO_STOCKS"
  shows "outcome (page df w)
           = outcome (page df (w\<lparr>selected_stocks := take MAX_PORTFOLIO_STOCKS (selected_stocks w)\<rparr>))
       \<and> sidebar (page df w)
           = MaxStocksError MAX_PORTFOLIO_STOCKS
             # sidebar (page df (w\<lparr>selected_stocks := take MAX_PORTFOLIO_STOCKS (selected_stocks w)\<rparr>))"
  using assms
  by (simp add: page_def Let_def effective_stocks_def max_stocks_messages_def)

theorem oversized_selection_truncated_witness:
  "length (selected_stocks example_widgets21) > MAX_PORTFOLIO_STOCKS
   \<and> outcome (page example_df21 example_widgets21)
       = outcome (page example_df21 (example_widgets21\<lparr>selected_stocks := take 20 example_symbols21\<rparr>))
   \<and> sidebar (page example_df21 example_widgets21)
       = MaxStocksError 20
         # sidebar (page example_df21 (example_widgets21\<lparr>selected_stocks := take 20 example_symbols21\<rparr>))"
  using oversized_selection_truncated [of example_df21 example_widgets21]
  by (simp add: example_widgets21_def example21_facts MAX_PORTFOLIO_STOCKS_def example_df21_def)

text \<open>
  The claim that such a run fails before the simulation starts does not hold: with 21
  symbols selected and equal weights, the script calls the backtester with the first 20.
\<close>

theorem oversized_selection_counterexample:
  "length (selected_stocks example_widgets21) > 20
   \<and> outcome (page example_df21 example_widgets21)
       = Backtest (make_call example_widgets21 (take 20 example_symbols21)
                     (map (\<lambda>stock. (stock, 1 / 20)) (take 20 example_symbols21)))"
proof -
  have sel: "selected_stocks example_widgets21 = example_symbols21"
    by (simp add: example_widgets21_def)
  have eff: "effective_stocks example_symbols21 = take 20 example_symbols21"
    by (simp add: effective_stocks_def MAX_PORTFOLIO_STOCKS_def example21_facts)
  have len: "length (take 20 example_symbols21) = 20"
    by (simp add: example21_facts)
  have "outcome (page example_df21 example_widgets21)
          = Backtest (make_call example_widgets21 (effective_stocks (selected_stocks example_widgets21))
             (map (\<lambda>stock. (stock, 1 / real (length (effective_stocks (selected_stocks example_widgets21)))))
                  (effective_stocks (selected_stocks example_widgets21))))"
    using equal_weight_page [of example_df21 example_widgets21]
    by (simp add: sel example21_facts example_df21_def example_widgets21_def example_widgets_def)
  then show ?thesis
    by (simp add: sel eff len example21_facts)
qed

section \<open>Properties of the engine\<close>

subsection \<open>Metrics\<close>







subsection \<open>Frame lemmas\<close>

lemma fold_preserves:
  assumes "\<And>x st. x \<in> set xs \<Longrightarrow> P st \<Longrightarrow> P (f x st)" and "P st"
  shows "P (fold f xs st)"
  using assms by (induction xs arbitrary: st) auto

lemma invest_histories [simp]:
  "rebalancing_history (invest s a st) = rebalancing_history st"
  "tax_payments (invest s a st) = tax_payments st"
  "dividend_history (invest s a st) = dividend_history st"
  "contribution_history (invest s a st) = contribution_history st"
  "price_gains (invest s a st) = price_gains st"
  "last_price (invest s a st) = last_price st"
  "as_of (invest s a st) = as_of st"
  by (simp_all add: invest_def buy_shares_def split: option.splits)

lemma fold_field:
  assumes "\<And>x st. g (f x st) = g st"
  shows "g (fold f xs st) = g st"
  using assms by (induction xs arbitrary: st) auto

lemma sell_shares_histories [simp]:
  "rebalancing_history (sell_shares s q p st) = rebalancing_history st"
  "tax_payments (sell_shares s q p st) = tax_payments st"
  "dividend_history (sell_shares s q p st) = dividend_history st"
  "contribution_history (sell_shares s q p st) = contribution_history st"
  "price_gains (sell_shares s q p st) = price_gains st"
  "last_price (sell_shares s q p st) = last_price st"
  "as_of (sell_shares s q p st) = as_of st"
  by (simp_all add: sell_shares_def)

lemma execute_sells_histories [simp]:
  "rebalancing_history (execute_sells st0 sells st) = rebalancing_history st"
  "tax_payments (execute_sells st0 sells st) = tax_payments st"
  "dividend_history (execute_sells st0 sells st) = dividend_history st"
  "contribution_history (execute_sells st0 sells st) = contribution_history st"
  "price_gains (execute_sells st0 sells st) = price_gains st"
  "last_price (execute_sells st0 sells st) = last_price st"
  "as_of (execute_sells st0 sells st) = as_of st"
  unfolding execute_sells_def
  by (rule fold_field, simp split: prod.splits)+

lemma execute_buys_histories [simp]:
  "rebalancing_history (execute_buys buys st) = rebalancing_history st"
  "tax_payments (execute_buys buys st) = tax_payments st"
  "dividend_history (execute_buys buys st) = dividend_history st"
  "contribution_history (execute_buys buys st) = contribution_history st"
  "price_gains (execute_buys buys st) = price_gains st"
  "last_price (execute_buys buys st) = last_price st"
  "as_of (execute_buys buys st) = as_of st"
  unfolding execute_buys_def
  by (rule fold_field, simp split: prod.splits)+

subsection \<open>Runs without rebalancing\<close>

lemma no_rebalancing_yet_invest:
  "no_rebalancing_yet st \<Longrightarrow> no_rebalancing_yet (invest s a st)"
  by (simp add: no_rebalancing_yet_def)

lemma no_rebalancing_yet_deploy:
  "no_rebalancing_yet st \<Longrightarrow> no_rebalancing_yet (deploy cfg syms a st)"
  unfolding deploy_def by (rule fold_preserves) (simp_all add: no_rebalancing_yet_invest)

lemma no_rebalancing_yet_mark:
  "no_rebalancing_yet st \<Longrightarrow> no_rebalancing_yet (mark_to_market syms d st)"
  by (simp add: no_rebalancing_yet_def mark_to_market_def)

lemma no_rebalancing_yet_pay_dividend:
  "no_rebalancing_yet st \<Longrightarrow> no_rebalancing_yet (pay_dividend cfg s a st)"
  by (auto simp: no_rebalancing_yet_def pay_dividend_def Let_def dividend_tax_record_def
      split: option.splits)

lemma no_rebalancing_yet_dividend_step:
  "no_rebalancing_yet st \<Longrightarrow> no_rebalancing_yet (dividend_step cfg syms d st)"
  unfolding dividend_step_def
  by (rule fold_preserves) (auto simp: no_rebalancing_yet_pay_dividend split: option.splits)

lemma no_rebalancing_yet_contribution_step:
  assumes "no_rebalancing_yet st"
  shows "no_rebalancing_yet (contribution_step cfg syms d st)"
proof (cases "cfg_contribution_day cfg (day_date d) \<and> 0 < cfg_monthly_contribution cfg")
  case True
  have "no_rebalancing_yet
          (st\<lparr> cash := cash st + cfg_monthly_contribution cfg,
               contribution_history :=
                 contribution_history st @ [(day_date d, cfg_monthly_contribution cfg)] \<rparr>)"
    using assms by (simp add: no_rebalancing_yet_def)
  then show ?thesis
    using True by (simp add: contribution_step_def no_rebalancing_yet_deploy)
next
  case False
  then show ?thesis using assms by (auto simp: contribution_step_def)
qed

lemma never_due:
  "cfg_frequency cfg = NoRebalancing \<Longrightarrow> \<not> rebalance_due cfg today"
  by (simp add: rebalance_due_def)

lemma no_rebalancing_yet_day_step:
  assumes "cfg_frequency cfg = NoRebalancing" and "no_rebalancing_yet st"
    and "day_step cfg syms st d = Inr st'"
  shows "no_rebalancing_yet st'"
proof -
  have "no_rebalancing_yet (day_transitions cfg syms d st)"
    unfolding day_transitions_def rebalancing_step_def
    using assms(1,2)
    by (simp add: never_due no_rebalancing_yet_contribution_step
        no_rebalancing_yet_dividend_step no_rebalancing_yet_mark)
  then have "no_rebalancing_yet (snapshot syms d (day_transitions cfg syms d st))"
    by (simp add: no_rebalancing_yet_def snapshot_def)
  with assms(3) show ?thesis
    by (auto simp: day_step_def Let_def split: option.splits)
qed

lemma no_rebalancing_yet_trajectory:
  assumes "cfg_frequency cfg = NoRebalancing"
  shows "no_rebalancing_yet st \<Longrightarrow> trajectory cfg syms st ds = Inr sts \<Longrightarrow>
         no_rebalancing_yet (last (st # sts))"
proof (induction ds arbitrary: st sts)
  case Nil
  then show ?case by simp
next
  case (Cons d ds)
  from Cons.prems(2) obtain st' sts' where
    step: "day_step cfg syms st d = Inr st'" and
    rest: "trajectory cfg syms st' ds = Inr sts'" and
    sts: "sts = st' # sts'"
    by (auto split: sum.splits)
  have "no_rebalancing_yet st'"
    using assms Cons.prems(1) step by (rule no_rebalancing_yet_day_step)
  then have "no_rebalancing_yet (last (st' # sts'))"
    using rest by (rule Cons.IH)
  then show ?case by (simp add: sts)
qed

lemma trajectory_length:
  "trajectory cfg syms st ds = Inr sts \<Longrightarrow> length sts = length ds"
  by (induction ds arbitrary: st sts) (auto split: sum.splits)

lemma no_rebalancing_yet_simulate:
  assumes "cfg_frequency cfg = NoRebalancing" and "simulate cfg days = Inr sts"
  shows "no_rebalancing_yet (last (initial_state cfg # sts))"
proof -
  from assms(2) obtain d ds where days: "days = d # ds"
    and tr: "trajectory cfg (active_symbols cfg days)
               (initial_allocation cfg (active_symbols cfg days) d) days = Inr sts"
    by (auto simp: simulate_def split: option.splits list.splits if_splits)
  have "no_rebalancing_yet (initial_state cfg)"
    by (simp add: no_rebalancing_yet_def initial_state_def)
  then have "no_rebalancing_yet (initial_allocation cfg (active_symbols cfg days) d)"
    unfolding initial_allocation_def
    by (intro no_rebalancing_yet_deploy no_rebalancing_yet_mark)
  then have "no_rebalancing_yet (last (initial_allocation cfg (active_symbols cfg days) d # sts))"
    using tr by (rule no_rebalancing_yet_trajectory [OF assms(1)])
  moreover have "sts \<noteq> []"
    using trajectory_length [OF tr] days by auto
  ultimately show ?thesis by simp
qed

text \<open>
  Claim C8.  With the rebalancing frequency "none" the trigger fires on no date, and a
  completed run, whatever its other inputs, has no rebalancing event, hence no
  rebalancing fees and no rebalancing taxes, and its tax history has no capital-gains
  entry.  On the page, the choice "No Rebalancing" passes the rebalancing fee 0 to the
  backtester (lines 211--220).
\<close>

theorem no_rebalancing_no_events:
  assumes "cfg_frequency cfg = NoRebalancing"
  shows "\<not> rebalance_due cfg today
       \<and> (run_backtest_engine cfg days = Inr b \<longrightarrow>
            rb_rebalancing_history b = []
          \<and> sum_list (map re_fees (rb_rebalancing_history b)) = 0
          \<and> sum_list (map re_taxes (rb_rebalancing_history b)) = 0
          \<and> filter (\<lambda>tp. tp_kind tp = CapitalGainsTax) (rb_tax_payments b) = [])
       \<and> (rebalancing_frequency w = ''No Rebalancing'' \<longrightarrow>
            call_rebalancing_fee (make_call w stocks W) = 0)"
proof -
  have "rb_rebalancing_history b = []
          \<and> filter (\<lambda>tp. tp_kind tp = CapitalGainsTax) (rb_tax_payments b) = []"
    if run: "run_backtest_engine cfg days = Inr b"
  proof -
    from run obtain sts sts' where sim: "simulate cfg days = Inr sts"
      and b: "b = finalize cfg days (last (initial_state cfg # sts)) (last (initial_state cfg # sts'))"
      by (auto simp: run_backtest_engine_def split: sum.splits)
    have "no_rebalancing_yet (last (initial_state cfg # sts))"
      using assms sim by (rule no_rebalancing_yet_simulate)
    then show ?thesis
      by (auto simp: b finalize_def no_rebalancing_yet_def filter_empty_conv)
  qed
  moreover have "rebalancing_frequency w = ''No Rebalancing'' \<longrightarrow>
            call_rebalancing_fee (make_call w stocks W) = 0"
    by (simp add: make_call_def rebalancing_fee_of_def)
  ultimately show ?thesis using never_due [OF assms] by auto
qed

theorem no_rebalancing_no_events_witness:
  "cfg_frequency sample_config = NoRebalancing
   \<and> \<not> rebalance_due sample_config 2
   \<and> map_sum id (\<lambda>b. (rb_rebalancing_history b,
                        sum_list (map re_fees (rb_rebalancing_history b)),
                        sum_list (map re_taxes (rb_rebalancing_history b)),
                        filter (\<lambda>tp. tp_kind tp = CapitalGainsTax) (rb_tax_payments b)))
        (run_backtest_engine sample_config sample_days) = Inr ([], 0, 0, [])
   \<and> rebalancing_frequency example_widgets = ''No Rebalancing''
   \<and> call_rebalancing_fee (make_call example_widgets [''KO'', ''PG''] [(''KO'', 1 / 2), (''PG'', 1 / 2)]) = 0"
proof -
  have w: "rebalancing_frequency example_widgets = ''No Rebalancing''"
    by (simp add: example_widgets_def)
  have f: "cfg_frequency sample_config = NoRebalancing"
    by (simp add: sample_config_def)
  have "\<not> isl (run_backtest_engine sample_config sample_days)"
    by code_simp
  then obtain b where b: "run_backtest_engine sample_config sample_days = Inr b"
    by (cases "run_backtest_engine sample_config sample_days") auto
  from no_rebalancing_no_events [OF f, of 2 sample_days b example_widgets
      "[''KO'', ''PG'']" "[(''KO'', 1 / 2), (''PG'', 1 / 2)]"] b f w show ?thesis
    by simp
qed

subsection \<open>The invariants of the portfolio state\<close>



lemma day_step_Inr:
  assumes "day_step cfg syms st d = Inr st'"
  shows "st' = snapshot syms d (day_transitions cfg syms d st)"
    and "check_invariants syms (day_transitions cfg syms d st) = None"
  using assms by (auto simp: day_step_def Let_def split: option.splits)

lemma snapshot_portfolio [simp]:
  "cash (snapshot syms d st) = cash st"
  "holdings (snapshot syms d st) = holdings st"
  "last_price (snapshot syms d st) = last_price st"
  "as_of (snapshot syms d st) = as_of st"
  by (simp_all add: snapshot_def)







subsection \<open>Capital gains on rebalancing sales\<close>



lemma match_fifo_remaining:
  "sum_list (map lot_shares (snd (match_fifo ls q)))
     = sum_list (map lot_shares ls) - sum_list (map lot_shares (fst (match_fifo ls q)))"
proof (induction ls arbitrary: q)
  case Nil
  show ?case by simp
next
  case (Cons l ls)
  obtain ms rest where m: "match_fifo ls (q - lot_shares l) = (ms, rest)"
    by (cases "match_fifo ls (q - lot_shares l)")
  with Cons.IH [of "q - lot_shares l"] show ?case by simp
qed















subsection \<open>Conservation of value\<close>

lemma sum_list_update_one:
  fixes f g :: "'a \<Rightarrow> real"
  assumes "distinct xs" and "s \<in> set xs" and "\<And>x. x \<noteq> s \<Longrightarrow> g x = f x"
  shows "sum_list (map g xs) = sum_list (map f xs) + (g s - f s)"
  using assms(1,2)
proof (induction xs)
  case Nil
  then show ?case by simp
next
  case (Cons x xs)
  show ?case
  proof (cases "x = s")
    case True
    with Cons.prems have "s \<notin> set xs" by simp
    then have "sum_list (map g xs) = sum_list (map f xs)"
      by (intro arg_cong [where f = sum_list] map_cong refl assms(3)) auto
    with True show ?thesis by simp
  next
    case False
    with Cons.prems have "distinct xs" "s \<in> set xs" by simp_all
    with Cons.IH have "sum_list (map g xs) = sum_list (map f xs) + (g s - f s)" by simp
    with False assms(3) [of x] show ?thesis by simp
  qed
qed

lemma total_value_shift:
  assumes "last_price st' = last_price st"
    and "\<And>s. s \<in> set syms \<Longrightarrow> shares (holdings st' s) = shares (holdings st s)"
  shows "total_value syms st' = total_value syms st + (cash st' - cash st)"
proof -
  have eq: "sum_list (map (position_value st') syms) = sum_list (map (position_value st) syms)"
    by (rule arg_cong [where f = sum_list], rule map_cong)
       (simp_all add: position_value_def price_of_def assms)
  show ?thesis unfolding total_value_def eq by simp
qed

lemma total_value_trade:
  assumes "distinct syms" and "s \<in> set syms"
    and "last_price st' = last_price st"
    and "\<And>x. x \<noteq> s \<Longrightarrow> shares (holdings st' x) = shares (holdings st x)"
    and "shares (holdings st' s) = shares (holdings st s) + q"
    and "cash st' = cash st - q * price_of st s"
  shows "total_value syms st' = total_value syms st"
proof -
  have "sum_list (map (position_value st') syms)
          = sum_list (map (position_value st) syms) + (position_value st' s - position_value st s)"
    using assms(1,2)
    by (rule sum_list_update_one) (simp add: position_value_def price_of_def assms(3,4))
  moreover have "position_value st' s - position_value st s = q * price_of st s"
    by (simp add: position_value_def price_of_def assms(3,5) algebra_simps)
  ultimately show ?thesis by (simp add: total_value_def assms(6))
qed

lemma total_value_buy:
  assumes "distinct syms" and "s \<in> set syms" and "last_price st s = Some p"
  shows "total_value syms (buy_shares s q p st) = total_value syms st"
  using assms(1,2)
  by (rule total_value_trade [where q = q]) (simp_all add: buy_shares_def price_of_def assms(3))

lemma total_value_invest:
  assumes "distinct syms" and "s \<in> set syms"
  shows "total_value syms (invest s a st) = total_value syms st"
  using assms by (simp add: invest_def total_value_buy split: option.splits)

lemma total_value_sell:
  assumes "distinct syms" and "s \<in> set syms" and "last_price st = last_price st0"
  shows "total_value syms (sell_shares s q (price_of st0 s) st) = total_value syms st"
  using assms(1,2)
  by (rule total_value_trade [where q = "- q"])
     (simp_all add: sell_shares_def price_of_def assms(3))

lemma accounted_total_frame:
  assumes "contribution_history st' = contribution_history st"
    and "dividend_history st' = dividend_history st"
    and "rebalancing_history st' = rebalancing_history st"
    and "tax_payments st' = tax_payments st"
    and "price_gains st' = price_gains st"
  shows "accounted_total cfg st' = accounted_total cfg st"
  by (simp add: accounted_total_def total_contributions_def total_gross_dividends_def
      total_fees_def total_taxes_def assms)

lemma conserved_invest:
  assumes "distinct syms" and "s \<in> set syms" and "conserved cfg syms st"
  shows "conserved cfg syms (invest s a st)"
  using assms(3) unfolding conserved_def
  by (simp add: total_value_invest [OF assms(1,2)] accounted_total_frame [of "invest s a st" st])

lemma conserved_deploy:
  assumes "distinct syms" and "conserved cfg syms st"
  shows "conserved cfg syms (deploy cfg' syms a st)"
  unfolding deploy_def
  by (rule fold_preserves [where P = "conserved cfg syms"])
     (simp_all add: conserved_invest assms)

lemma sum_list_mult_diff:
  fixes a b c :: "'a \<Rightarrow> real"
  shows "sum_list (map (\<lambda>s. a s * (b s - c s)) xs)
           = sum_list (map (\<lambda>s. a s * b s) xs) - sum_list (map (\<lambda>s. a s * c s) xs)"
  by (induction xs) (simp_all add: algebra_simps)

lemma conserved_mark_to_market:
  assumes "conserved cfg syms st"
  shows "conserved cfg syms (mark_to_market syms d st)"
proof -
  let ?st = "mark_to_market syms d st"
  let ?gain = "sum_list (map (\<lambda>s. shares (holdings st s)
                 * ((case carried_price d st s of None \<Rightarrow> 0 | Some p \<Rightarrow> p) - price_of st s)) syms)"
  have pv: "position_value ?st = (\<lambda>s. shares (holdings st s)
               * (case carried_price d st s of None \<Rightarrow> 0 | Some p \<Rightarrow> p))"
    by (rule ext) (simp add: position_value_def price_of_def mark_to_market_def)
  have pv0: "position_value st = (\<lambda>s. shares (holdings st s) * price_of st s)"
    by (rule ext) (simp add: position_value_def)
  have c: "cash ?st = cash st" by (simp add: mark_to_market_def)
  have "total_value syms ?st = total_value syms st + ?gain"
    unfolding total_value_def pv pv0 sum_list_mult_diff c by simp
  moreover have "accounted_total cfg ?st = accounted_total cfg st + ?gain"
    by (simp add: accounted_total_def total_contributions_def total_gross_dividends_def
        total_fees_def total_taxes_def mark_to_market_def)
  ultimately show ?thesis using assms by (simp add: conserved_def)
qed

lemma dividend_tax_recorded:
  "sum_list (map tp_tax (dividend_tax_record cfg (credit_dividend cfg s a st)))
     = dp_tax (credit_dividend cfg s a st)"
  by (simp add: dividend_tax_record_def credit_dividend_def Let_def dividend_tax_def
      split: option.splits)

lemma dp_net_credit:
  "dp_net (credit_dividend cfg s a st)
     = dp_gross (credit_dividend cfg s a st) - dp_tax (credit_dividend cfg s a st)"
  by (simp add: credit_dividend_def Let_def)

lemma conserved_pay_dividend:
  assumes "distinct syms" and "s \<in> set syms" and "conserved cfg syms st"
  shows "conserved cfg syms (pay_dividend cfg s a st)"
proof (cases "0 < eligible_shares (as_of st) (holdings st s)")
  case False
  then show ?thesis using assms(3) by (simp add: pay_dividend_def)
next
  case True
  define dp where "dp = credit_dividend cfg s a st"
  define st1 where "st1 = st\<lparr> cash := cash st + (dp_net dp - dp_fee dp),
                          holdings := (holdings st)
                            (s := (holdings st s)
                               \<lparr> dividends_received :=
                                   dividends_received (holdings st s) + dp_gross dp \<rparr>),
                          dividend_history := dividend_history st @ [dp],
                          tax_payments := tax_payments st @ dividend_tax_record cfg dp \<rparr>"
  have pd: "pay_dividend cfg s a st
              = (if dp_reinvested dp then invest s (dp_net dp - dp_fee dp) st1 else st1)"
    using True by (simp add: pay_dividend_def Let_def dp_def st1_def)
  have "total_value syms st1 = total_value syms st + (cash st1 - cash st)"
    by (rule total_value_shift) (simp_all add: st1_def)
  then have v: "total_value syms st1 = total_value syms st + (dp_net dp - dp_fee dp)"
    by (simp add: st1_def)
  have a: "accounted_total cfg st1
             = accounted_total cfg st + dp_gross dp - dp_fee dp - dp_tax dp"
    using dividend_tax_recorded [of cfg s a st]
    by (simp add: accounted_total_def total_contributions_def total_gross_dividends_def
        total_fees_def total_taxes_def st1_def dp_def)
  have "conserved cfg syms st1"
    using assms(3) v a dp_net_credit [of cfg s a st] by (simp add: conserved_def dp_def)
  then show ?thesis
    unfolding pd using conserved_invest [OF assms(1,2)] by simp
qed

lemma conserved_dividend_step:
  assumes "distinct syms" and "conserved cfg syms st"
  shows "conserved cfg syms (dividend_step cfg syms d st)"
  unfolding dividend_step_def
  by (rule fold_preserves [where P = "conserved cfg syms"])
     (auto simp: conserved_pay_dividend assms split: option.splits)

lemma conserved_contribution_step:
  assumes "distinct syms" and "conserved cfg syms st"
  shows "conserved cfg syms (contribution_step cfg syms d st)"
proof (cases "cfg_contribution_day cfg (day_date d) \<and> 0 < cfg_monthly_contribution cfg")
  case False
  then show ?thesis using assms(2) by (auto simp: contribution_step_def)
next
  case True
  let ?st = "st\<lparr> cash := cash st + cfg_monthly_contribution cfg,
                  contribution_history :=
                    contribution_history st @ [(day_date d, cfg_monthly_contribution cfg)] \<rparr>"
  have "total_value syms ?st = total_value syms st + (cash ?st - cash st)"
    by (rule total_value_shift) simp_all
  moreover have "accounted_total cfg ?st = accounted_total cfg st + cfg_monthly_contribution cfg"
    by (simp add: accounted_total_def total_contributions_def total_gross_dividends_def
        total_fees_def total_taxes_def)
  ultimately have "conserved cfg syms ?st"
    using assms(2) by (simp add: conserved_def)
  then have "conserved cfg syms (deploy cfg syms (cfg_monthly_contribution cfg) ?st)"
    using assms(1) by (intro conserved_deploy)
  with True show ?thesis by (simp add: contribution_step_def)
qed

lemma conserved_frame:
  assumes "conserved cfg syms st"
    and "total_value syms st' = total_value syms st"
    and "accounted_total cfg st' = accounted_total cfg st"
  shows "conserved cfg syms st'"
  using assms by (simp add: conserved_def)

lemma planned_sells_symbols: "fst ` set (planned_sells cfg syms st) \<subseteq> set syms"
  by (auto simp: planned_sells_def)

lemma wanted_buys_symbols: "fst ` set (wanted_buys cfg syms st) \<subseteq> set syms"
  by (auto simp: wanted_buys_def)

lemma execute_sells_value:
  assumes "distinct syms" and "fst ` set sells \<subseteq> set syms"
  shows "total_value syms (execute_sells st0 sells st0) = total_value syms st0"
proof -
  let ?P = "\<lambda>st. last_price st = last_price st0 \<and> total_value syms st = total_value syms st0"
  have "?P (fold (\<lambda>sq. case sq of (s, q) \<Rightarrow> sell_shares s q (price_of st0 s)) sells st0)"
  proof (rule fold_preserves [where P = ?P])
    fix x st
    assume x: "x \<in> set sells" and P: "?P st"
    obtain s q where sq: "x = (s, q)" by (cases x)
    with x assms(2) have s: "s \<in> set syms" by force
    have "total_value syms (sell_shares s q (price_of st0 s) st) = total_value syms st"
      using assms(1) s P by (intro total_value_sell) simp_all
    with P show "?P ((case x of (s, q) \<Rightarrow> sell_shares s q (price_of st0 s)) st)"
      by (simp add: sq)
  qed simp
  then show ?thesis by (simp add: execute_sells_def)
qed

lemma execute_buys_value:
  assumes "distinct syms" and "fst ` set buys \<subseteq> set syms"
  shows "total_value syms (execute_buys buys st) = total_value syms st"
proof -
  let ?P = "\<lambda>st'. total_value syms st' = total_value syms st"
  have "?P (fold (\<lambda>sa. case sa of (s, a) \<Rightarrow> invest s a) buys st)"
  proof (rule fold_preserves [where P = ?P])
    fix x st'
    assume x: "x \<in> set buys" and P: "?P st'"
    obtain s a where sa: "x = (s, a)" by (cases x)
    with x assms(2) have s: "s \<in> set syms" by force
    have "total_value syms (invest s a st') = total_value syms st'"
      using assms(1) s by (rule total_value_invest)
    with P show "?P ((case x of (s, a) \<Rightarrow> invest s a) st')"
      by (simp add: sa)
  qed simp
  then show ?thesis by (simp add: execute_buys_def)
qed

lemma conserved_rebalance:
  assumes "distinct syms" and "conserved cfg syms st"
  shows "conserved cfg syms (rebalance cfg syms st)"
proof (cases "total_value syms st \<le> 0")
  case True
  then show ?thesis using assms(2) by (simp add: rebalance_def)
next
  case False
  define sells where "sells = planned_sells cfg syms st"
  define st1 where "st1 = execute_sells st sells st"
  define sold_value where "sold_value = sum_list (map (\<lambda>sq. snd sq * price_of st (fst sq)) sells)"
  define taxes where "taxes = (case cfg_tax cfg of
                        None \<Rightarrow> 0
                      | Some rates \<Rightarrow>
                          capital_gains_tax rates (as_of st)
                            (concat (map (realized_of st) (planned_sells cfg syms st))))"
  define buys where "buys = map (\<lambda>sa. (fst sa, snd sa
        * buy_scale (cfg_rebalancing_fee cfg) (sum_list (map snd (wanted_buys cfg syms st)))
            (cash st1 - cfg_rebalancing_fee cfg * sold_value - taxes)))
        (wanted_buys cfg syms st)"
  define st2 where "st2 = execute_buys buys st1"
  define fees where "fees = cfg_rebalancing_fee cfg * (sold_value + sum_list (map snd buys))"
  let ?st = "rebalance cfg syms st"
  note defs = sells_def st1_def sold_value_def taxes_def buys_def st2_def fees_def
  have cash: "cash ?st = cash st2 - fees - taxes"
    using False by (simp add: rebalance_def Let_def defs)
  have hold: "holdings ?st = holdings st2" and lp: "last_price ?st = last_price st2"
    using False by (simp_all add: rebalance_def Let_def defs)
  have hist: "contribution_history ?st = contribution_history st"
    "dividend_history ?st = dividend_history st"
    "price_gains ?st = price_gains st"
    using False by (simp_all add: rebalance_def Let_def)
  have rh: "sum_list (map re_fees (rebalancing_history ?st))
              = sum_list (map re_fees (rebalancing_history st)) + fees"
    using False by (simp add: rebalance_def Let_def defs)
  have tp: "sum_list (map tp_tax (tax_payments ?st))
              = sum_list (map tp_tax (tax_payments st)) + taxes"
    using False by (simp add: rebalance_def Let_def defs split: option.splits)
  have "total_value syms st1 = total_value syms st"
    unfolding st1_def using assms(1)
    by (rule execute_sells_value) (simp add: sells_def planned_sells_symbols)
  moreover have "fst ` set buys \<subseteq> set syms"
    using wanted_buys_symbols [of cfg syms st] by (auto simp: buys_def)
  then have "total_value syms st2 = total_value syms st1"
    unfolding st2_def using assms(1) by (intro execute_buys_value)
  ultimately have v2: "total_value syms st2 = total_value syms st" by simp
  have "total_value syms ?st = total_value syms st2 + (cash ?st - cash st2)"
    by (rule total_value_shift) (simp_all add: hold lp)
  then have v: "total_value syms ?st = total_value syms st - fees - taxes"
    by (simp add: cash v2)
  have a: "accounted_total cfg ?st = accounted_total cfg st - fees - taxes"
    by (simp add: accounted_total_def total_contributions_def total_gross_dividends_def
        total_fees_def total_taxes_def hist rh tp)
  from assms(2) v a show ?thesis by (simp add: conserved_def)
qed

lemma conserved_snapshot:
  assumes "conserved cfg syms st"
  shows "conserved cfg syms (snapshot syms' d st)"
  using assms
proof (rule conserved_frame)
  have "total_value syms (snapshot syms' d st)
          = total_value syms st + (cash (snapshot syms' d st) - cash st)"
    by (rule total_value_shift) simp_all
  then show "total_value syms (snapshot syms' d st) = total_value syms st" by simp
  show "accounted_total cfg (snapshot syms' d st) = accounted_total cfg st"
    by (rule accounted_total_frame) (simp_all add: snapshot_def)
qed

lemma conserved_day_step:
  assumes "distinct syms" and "conserved cfg syms st" and "day_step cfg syms st d = Inr st'"
  shows "conserved cfg syms st'"
proof -
  have "conserved cfg syms (day_transitions cfg syms d st)"
    unfolding day_transitions_def rebalancing_step_def
    using assms(1,2)
    by (simp add: conserved_rebalance conserved_contribution_step conserved_dividend_step
        conserved_mark_to_market)
  then have "conserved cfg syms (snapshot syms d (day_transitions cfg syms d st))"
    by (rule conserved_snapshot)
  with day_step_Inr(1) [OF assms(3)] show ?thesis by simp
qed

lemma conserved_trajectory:
  assumes "distinct syms"
  shows "conserved cfg syms st \<Longrightarrow> trajectory cfg syms st ds = Inr sts \<Longrightarrow>
         st' \<in> set sts \<Longrightarrow> conserved cfg syms st'"
proof (induction ds arbitrary: st sts)
  case Nil
  then show ?case by simp
next
  case (Cons d ds)
  from Cons.prems(2) obtain st1 sts1 where
    step: "day_step cfg syms st d = Inr st1" and
    rest: "trajectory cfg syms st1 ds = Inr sts1" and
    sts: "sts = st1 # sts1"
    by (auto split: sum.splits)
  have c1: "conserved cfg syms st1"
    using assms Cons.prems(1) step by (rule conserved_day_step)
  from Cons.prems(3) sts consider "st' = st1" | "st' \<in> set sts1" by auto
  then show ?case
  proof cases
    case 1
    with c1 show ?thesis by simp
  next
    case 2
    with Cons.IH [OF c1 rest] show ?thesis by simp
  qed
qed

lemma conserved_initial_state: "conserved cfg syms (initial_state cfg)"
proof -
  have "sum_list (map (position_value (initial_state cfg)) syms) = 0"
    by (induction syms) (simp_all add: position_value_def initial_state_def empty_holding_def)
  then show ?thesis
    by (simp add: conserved_def total_value_def accounted_total_def total_contributions_def
        total_gross_dividends_def total_fees_def total_taxes_def initial_state_def)
qed

lemma conserved_simulate:
  assumes "simulate cfg days = Inr sts"
  shows "sts \<noteq> [] \<and> conserved cfg (active_symbols cfg days) (last sts)"
proof -
  let ?syms = "active_symbols cfg days"
  from assms obtain d ds where days: "days = d # ds"
    and tr: "trajectory cfg ?syms (initial_allocation cfg ?syms d) days = Inr sts"
    by (auto simp: simulate_def split: option.splits list.splits if_splits)
  have d: "distinct ?syms" by (simp add: active_symbols_def)
  have ne: "sts \<noteq> []"
    using trajectory_length [OF tr] days by auto
  have c0: "conserved cfg ?syms (initial_allocation cfg ?syms d)"
    unfolding initial_allocation_def
    by (intro conserved_deploy conserved_mark_to_market conserved_initial_state d)
  have mem: "last sts \<in> set sts"
    using ne by (rule last_in_set)
  have "conserved cfg ?syms (last sts)"
    by (rule conserved_trajectory [OF d c0 tr mem])
  with ne show ?thesis by simp
qed

text \<open>
  Claim C1, as the engine has it.  For every completed run, the final cash plus the sum
  over the symbols of the run of final shares times final price equals the initial
  investment, plus the contributions, plus the gross dividends, whether reinvested or
  paid to cash, minus the fees (DRIP and rebalancing), minus the taxes (on dividends and
  on capital gains), plus the price gains, that is the sum over all days of the change in
  value that the day's new prices brought to the shares held.  The equation is exact.
\<close>

theorem value_accounted:
  assumes "simulate cfg days = Inr sts"
  shows "sts \<noteq> []
       \<and> cash (last sts)
           + sum_list (map (\<lambda>s. shares (holdings (last sts) s) * price_of (last sts) s)
                        (active_symbols cfg days))
         = cfg_initial_investment cfg + total_contributions (last sts)
           + total_gross_dividends (last sts) - total_fees (last sts) - total_taxes (last sts)
           + price_gains (last sts)"
proof -
  have pv: "position_value (last sts) = (\<lambda>s. shares (holdings (last sts) s) * price_of (last sts) s)"
    by (rule ext) (simp add: position_value_def)
  from conserved_simulate [OF assms] show ?thesis
    by (simp add: conserved_def total_value_def accounted_total_def pv)
qed

theorem value_accounted_witness:
  "map_sum id
     (\<lambda>sts. (cash (last sts)
               + sum_list (map (\<lambda>s. shares (holdings (last sts) s) * price_of (last sts) s)
                            (active_symbols taxed_config taxed_days)),
             total_contributions (last sts), total_gross_dividends (last sts),
             total_fees (last sts), total_taxes (last sts), price_gains (last sts)))
     (simulate taxed_config taxed_days)
   = Inr (7450 / 3, 0, 0, 0, 50 / 3, 500)"
proof -
  have parts: "map_sum id
     (\<lambda>sts. (total_contributions (last sts), total_gross_dividends (last sts),
             total_fees (last sts), total_taxes (last sts), price_gains (last sts)))
     (simulate taxed_config taxed_days)
   = Inr (0, 0, 0, 50 / 3, 500)"
    by code_simp
  then obtain sts where sts: "simulate taxed_config taxed_days = Inr sts"
    by (cases "simulate taxed_config taxed_days") auto
  from parts have vals: "total_contributions (last sts) = 0"
    "total_gross_dividends (last sts) = 0" "total_fees (last sts) = 0"
    "total_taxes (last sts) = 50 / 3" "price_gains (last sts) = 500"
    by (simp_all add: sts)
  have init: "cfg_initial_investment taxed_config = 2000"
    by (simp add: taxed_config_def)
  note eq = value_accounted [OF sts, THEN conjunct2]
  have "cash (last sts)
          + sum_list (map (\<lambda>s. shares (holdings (last sts) s) * price_of (last sts) s)
                       (active_symbols taxed_config taxed_days)) = 7450 / 3"
    unfolding eq vals init by simp
  with vals show ?thesis
    by (simp add: sts)
qed

text \<open>
  The law as the claim words it fails on three small runs.  With DRIP, a dividend of 10
  is reinvested and the final value is 1010, while the claimed total stays at 1000.  With
  the dividend taxed and paid to cash, the final value is 1007.80, while the claimed total
  subtracts the tax of 2.20 from the net dividend a second time.  With no dividend at all
  and a price that rises from 100 to 150, the final value is 1500 and the claimed total
  1000.
\<close>

theorem conservation_law_counterexample:
  "law_sides sample_config sample_days = Inr (1010, 1000)
   \<and> law_sides taxed_dividend_config sample_days = Inr (5039 / 5, 5028 / 5)
   \<and> law_sides sample_config rising_days = Inr (1500, 1000)"
proof -
  have 1: "law_sides sample_config sample_days = Inr (1010, 1000)"
    by code_simp
  have 2: "law_sides taxed_dividend_config sample_days = Inr (5039 / 5, 5028 / 5)"
    by code_simp
  have 3: "law_sides sample_config rising_days = Inr (1500, 1000)"
    by code_simp
  from 1 2 3 show ?thesis by blast
qed

end
